theory Spec2Isabelle
  imports Complex_Main "HOL-Library.Product_Lexorder" "HOL-Library.Multiset"
begin

section \<open>Numbers, errors and Python helpers\<close>

text \<open>
  Python \<open>Decimal\<close> values are embedded as \<^typ>\<open>real\<close>: decimal arithmetic is exact, the
  28-digit context being idealised away. Python \<open>int\<close> is \<^typ>\<open>int\<close>, lengths and positions are
  \<^typ>\<open>nat\<close>. A Python \<open>float\<close> is a real number that binary64 holds, and the float
  arithmetic of the analyzers and of the insight engine rounds as the source's does
  (section Floating point).
\<close>

text \<open>Exceptions of \<open>core/exceptions.py\<close> and the built-in ones the analyzers can meet.
  \<open>CalculationError tag cause\<close> is \<open>raise CalculationError(tag, str(e)) from e\<close>: it keeps the
  stage tag and the wrapped exception \<open>e\<close>. \<open>ValidationError\<close> is what a pydantic validator
  raises, with the validator's message. \<open>ZeroDivisionError\<close> stands for every division by
  zero, of \<open>float\<close> and of \<open>Decimal\<close>; \<open>ValueError\<close> is raised by \<open>max\<close> on an empty list.\<close>

datatype error =
    InsufficientDataError string nat nat
  | CalculationError string error
  | ValidationError string
  | ZeroDivisionError
  | ValueError

text \<open>\<open>Decimal.quantize\<close> in the default context rounds half to even.\<close>

definition round_half_even :: "real \<Rightarrow> int" where
  "round_half_even x =
     (let f = \<lfloor>x\<rfloor>; d = x - of_int f
      in if d < 1/2 then f else if 1/2 < d then f + 1 else if even f then f else f + 1)"

text \<open>\<open>x.quantize(Decimal(q))\<close> for a positive unit \<open>q\<close> such as \<open>0.1\<close>.\<close>

definition quantize :: "real \<Rightarrow> real \<Rightarrow> real" where
  "quantize x q = of_int (round_half_even (x / q)) * q"

text \<open>\<open>sorted(xs, key=f)\<close> is the stable \<^const>\<open>sort_key\<close>. With \<open>reverse=True\<close> CPython
  reverses the list, sorts it stably and reverses the result, which keeps equal keys in their
  original order.\<close>

definition sorted_reverse :: "('a \<Rightarrow> 'k::linorder) \<Rightarrow> 'a list \<Rightarrow> 'a list" where
  "sorted_reverse f xs = rev (sort_key f (rev xs))"

section \<open>Floating point\<close>

text \<open>\<open>pow2 e\<close> is the power of two with the integer exponent \<open>e\<close>.\<close>

definition pow2 :: "int \<Rightarrow> real" where
  "pow2 e = (if 0 \<le> e then 2 ^ nat e else 1 / 2 ^ nat (- e))"

text \<open>\<open>float(x)\<close>: the binary64 number nearest to \<open>x\<close>, ties to the even significand. A
  number between \<open>2\<^sup>e\<close> and \<open>2\<^sup>e\<^sup>+\<^sup>1\<close> is rounded to a multiple of \<open>2\<^sup>e\<^sup>-\<^sup>5\<^sup>2\<close>. The exponent is
  not bounded: overflow and subnormal numbers, beyond \<open>10\<^sup>3\<^sup>0\<^sup>8\<close> and below \<open>10\<^sup>-\<^sup>3\<^sup>0\<^sup>7\<close>, are
  outside the model.\<close>

definition float_of :: "real \<Rightarrow> real" where
  "float_of x =
     (if x = 0 then 0
      else (let u = pow2 (\<lfloor>log 2 \<bar>x\<bar>\<rfloor> - 52) in of_int (round_half_even (x / u)) * u))"

text \<open>The four operations on floats: IEEE 754 returns the exact result, rounded. The callers
  test the divisor of a division.\<close>

definition fadd :: "real \<Rightarrow> real \<Rightarrow> real" where
  "fadd x y = float_of (x + y)"

definition fsub :: "real \<Rightarrow> real \<Rightarrow> real" where
  "fsub x y = float_of (x - y)"

definition fmul :: "real \<Rightarrow> real \<Rightarrow> real" where
  "fmul x y = float_of (x * y)"

definition fdiv :: "real \<Rightarrow> real \<Rightarrow> real" where
  "fdiv x y = float_of (x / y)"

text \<open>Three routines of the Python library work on floats and are not part of the repository;
  their results depend on the version of the library. They are parameters of the model:
  \<open>py_sum\<close> is the built-in \<open>sum\<close> on a list of floats, \<open>py_stdev\<close> is \<open>statistics.stdev\<close>, and
  \<open>py_str v\<close> is the number \<open>Decimal(str(v))\<close> that the text of the float \<open>v\<close> denotes.\<close>

record pylib =
  py_sum :: "real list \<Rightarrow> real"
  py_stdev :: "real list \<Rightarrow> real"
  py_str :: "real \<Rightarrow> real"

text \<open>What the bounds proved below take from the library: a standard deviation is not
  negative, and the text of a float that is not negative denotes a number that is not
  negative.\<close>

definition pylib_ok :: "pylib \<Rightarrow> bool" where
  "pylib_ok L = ((\<forall>xs. 0 \<le> py_stdev L xs) \<and> (\<forall>v. 0 \<le> v \<longrightarrow> 0 \<le> py_str L v))"

text \<open>\<open>str.lower()\<close> on UTF-8 text. A string is its bytes: the ASCII capitals move to the
  small letters, and so do the accented capitals of Latin-1 (the byte \<open>0xC3\<close> followed by
  \<open>0x80\<close> to \<open>0x9E\<close>, the multiplication sign \<open>0x97\<close> apart), which covers Portuguese
  text; letters of other scripts are outside the model.\<close>

definition lower_char :: "char \<Rightarrow> char" where
  "lower_char c =
     (let k = (of_char c :: nat)
      in if of_char CHR ''A'' \<le> k \<and> k \<le> of_char CHR ''Z'' then char_of (k + 32) else c)"

fun lower :: "string \<Rightarrow> string" where
  "lower [] = []"
| "lower [c] = [lower_char c]"
| "lower (c # d # cs) =
     (if (of_char c :: nat) = 0xC3 \<and> 0x80 \<le> (of_char d :: nat) \<and> (of_char d :: nat) \<le> 0x9E
          \<and> (of_char d :: nat) \<noteq> 0x97
      then c # char_of ((of_char d :: nat) + 32) # lower cs
      else lower_char c # lower (d # cs))"

section \<open>Enumerations (\<open>core/enums.py\<close>)\<close>

datatype RiskLevel = MUITO_ALTO | ALTO | MEDIO | BAIXO | MUITO_BAIXO

datatype TrendDirection = CRESCIMENTO | DECLINIO | ESTAVEL | VOLATIL

datatype InsightType = KPI | FLUXO_CAIXA | INADIMPLENCIA | TENDENCIA | ORCAMENTO | OPERACIONAL

datatype InsightPriority = CRITICA | ALTA | MEDIA | BAIXA

datatype DebtStatus = CONFISSAO_DIVIDA | EM_ATRASO | NEGOCIACAO | ACORDO | QUITADO | JURIDICO

text \<open>The five risk levels as an ordinal scale, from \<open>MUITO_BAIXO\<close> (0) to \<open>MUITO_ALTO\<close> (4).
  The enumeration itself carries no order; this is the order of the specification, and the one
  of the \<open>risco_scores\<close> table of the delinquency analyzer.\<close>

fun risk_rank :: "RiskLevel \<Rightarrow> nat" where
  "risk_rank MUITO_BAIXO = 0"
| "risk_rank BAIXO = 1"
| "risk_rank MEDIO = 2"
| "risk_rank ALTO = 3"
| "risk_rank MUITO_ALTO = 4"

section \<open>Risk classification (\<open>formatters/brazilian.py\<close>)\<close>

definition classificar_risco_inadimplencia :: "real \<Rightarrow> int \<Rightarrow> RiskLevel" where
  "classificar_risco_inadimplencia valor_decimal dias =
     (if valor_decimal \<ge> 50000 \<or> dias \<ge> 90 then MUITO_ALTO
      else if valor_decimal \<ge> 20000 \<or> dias \<ge> 60 then ALTO
      else if valor_decimal \<ge> 5000 \<or> dias \<ge> 30 then MEDIO
      else if valor_decimal \<ge> 1000 \<or> dias \<ge> 15 then BAIXO
      else MUITO_BAIXO)"

section \<open>Debtors (\<open>core/models.py\<close>, \<open>analyzers/delinquency_analyzer.py\<close>)\<close>

text \<open>An input debtor is a dictionary; an optional key is an \<open>option\<close> field, \<open>None\<close> when the
  key is absent. Of the model class \<open>Inadimplente\<close> the two optional dates, which the analyzer
  never sets, are left out.\<close>

record inad_raw =
  raw_nome :: string
  raw_valor_divida :: real
  raw_status :: "string option"
  raw_dias_atraso :: "int option"
  raw_categoria :: "string option"
  raw_observacoes :: "string option"

record Inadimplente =
  nome :: string
  valor_divida :: real
  status :: DebtStatus
  dias_atraso :: "int option"
  categoria :: "string option"
  observacoes :: "string option"
  risco :: "RiskLevel option"

text \<open>The validators of \<open>Inadimplente\<close>, run when the object is built.\<close>

definition Inadimplente_validado :: "Inadimplente \<Rightarrow> error + Inadimplente" where
  "Inadimplente_validado obj =
     (if valor_divida obj \<le> 0 then Inl (ValidationError ''Valor da divida deve ser positivo'')
      else if (case dias_atraso obj of None \<Rightarrow> False | Some d \<Rightarrow> d < 0)
        then Inl (ValidationError ''Dias em atraso nao podem ser negativos'')
      else Inr obj)"

definition status_map :: "string \<Rightarrow> DebtStatus option" where
  "status_map s =
     (if s = ''confissao_divida'' then Some CONFISSAO_DIVIDA
      else if s = ''em_atraso'' then Some EM_ATRASO
      else if s = ''negociacao'' then Some NEGOCIACAO
      else if s = ''acordo'' then Some ACORDO
      else if s = ''juridico'' then Some JURIDICO
      else None)"

text \<open>The body of the loop of \<open>_converter_inadimplentes\<close> for one debtor; a failure is wrapped
  with the debtor's name as the stage tag.\<close>

definition converter_inadimplente :: "inad_raw \<Rightarrow> error + Inadimplente" where
  "converter_inadimplente inad =
     (let st = (case raw_status inad of
                  None \<Rightarrow> CONFISSAO_DIVIDA
                | Some s \<Rightarrow> (case status_map (lower s) of None \<Rightarrow> CONFISSAO_DIVIDA | Some v \<Rightarrow> v));
          dias = (case raw_dias_atraso inad of None \<Rightarrow> 60 | Some d \<Rightarrow> d);
          r = classificar_risco_inadimplencia (raw_valor_divida inad) dias
      in case Inadimplente_validado
                \<lparr>nome = raw_nome inad, valor_divida = raw_valor_divida inad, status = st,
                 dias_atraso = Some dias,
                 categoria = Some (case raw_categoria inad of None \<Rightarrow> ''Nao informado'' | Some c \<Rightarrow> c),
                 observacoes = Some (case raw_observacoes inad of None \<Rightarrow> [] | Some t \<Rightarrow> t),
                 risco = Some r\<rparr> of
           Inl e \<Rightarrow> Inl (CalculationError (''conversao_inadimplente_'' @ raw_nome inad) e)
         | Inr obj \<Rightarrow> Inr obj)"

fun converter_inadimplentes :: "inad_raw list \<Rightarrow> error + Inadimplente list" where
  "converter_inadimplentes [] = Inr []"
| "converter_inadimplentes (inad # rest) =
     (case converter_inadimplente inad of
        Inl e \<Rightarrow> Inl e
      | Inr obj \<Rightarrow>
          (case converter_inadimplentes rest of
             Inl e \<Rightarrow> Inl e
           | Inr objs \<Rightarrow> Inr (obj # objs)))"

text \<open>\<open>_recomendar_acao_individual\<close> and \<open>_calcular_prioridade_cobranca\<close>, with the threshold
  table \<open>thresholds_risco\<close> of the analyzer (\<open>valor_alto\<close> 50000, \<open>valor_medio\<close> 20000,
  \<open>valor_baixo\<close> 5000). The test \<open>posicao <= total * 0.2\<close> is \<open>5 * posicao \<le> total\<close>, and
  \<open>posicao <= total * 0.5\<close> is \<open>2 * posicao \<le> total\<close>; the parameter \<open>total\<close> is
  \<open>n_total\<close> here.\<close>

definition valor_alto :: real where "valor_alto = 50000"
definition valor_medio :: real where "valor_medio = 20000"
definition valor_baixo :: real where "valor_baixo = 5000"

definition recomendar_acao_individual :: "Inadimplente \<Rightarrow> string" where
  "recomendar_acao_individual inadimplente =
     (if valor_divida inadimplente \<ge> valor_alto then
        (if status inadimplente = CONFISSAO_DIVIDA then ''Execucao judicial imediata''
         else ''Negociacao com desconto maximo de 20%'')
      else if valor_divida inadimplente \<ge> valor_medio then ''Acordo parcelado com entrada de 30%''
      else ''Negociacao direta com flexibilidade de prazo'')"

fun status_scores :: "DebtStatus \<Rightarrow> nat" where
  "status_scores CONFISSAO_DIVIDA = 20"
| "status_scores EM_ATRASO = 15"
| "status_scores NEGOCIACAO = 10"
| "status_scores ACORDO = 5"
| "status_scores JURIDICO = 15"
| "status_scores QUITADO = 10"

fun risco_scores :: "RiskLevel option \<Rightarrow> nat" where
  "risco_scores (Some MUITO_ALTO) = 10"
| "risco_scores (Some ALTO) = 8"
| "risco_scores (Some MEDIO) = 5"
| "risco_scores (Some BAIXO) = 3"
| "risco_scores (Some MUITO_BAIXO) = 1"
| "risco_scores None = 5"

definition calcular_prioridade_cobranca :: "Inadimplente \<Rightarrow> nat \<Rightarrow> nat \<Rightarrow> string" where
  "calcular_prioridade_cobranca inadimplente posicao n_total =
     (let score =
            (if valor_divida inadimplente \<ge> valor_alto then 40
             else if valor_divida inadimplente \<ge> valor_medio then 25 else (10::nat))
          + (if 5 * posicao \<le> n_total then 30 else if 2 * posicao \<le> n_total then 20 else 10)
          + status_scores (status inadimplente)
          + risco_scores (risco inadimplente)
      in if score \<ge> 80 then ''CRITICA''
         else if score \<ge> 60 then ''ALTA''
         else if score \<ge> 40 then ''MEDIA''
         else ''BAIXA'')"

text \<open>One entry of the ranking (the dictionary \<open>ranking_item\<close>).\<close>

record ranking_item =
  rk_posicao :: nat
  rk_nome :: string
  rk_valor_divida :: real
  rk_participacao_percentual :: real
  rk_status :: DebtStatus
  rk_risco :: "RiskLevel option"
  rk_categoria :: "string option"
  rk_recomendacao_acao :: string
  rk_prioridade_cobranca :: string

text \<open>\<open>_gerar_ranking_por_valor\<close>. The share divides by the sum of all debts in every pass of
  the loop, so a ledger whose debts sum to zero fails in the first pass; an empty ledger has
  no pass.\<close>

definition gerar_ranking_por_valor :: "Inadimplente list \<Rightarrow> error + ranking_item list" where
  "gerar_ranking_por_valor inadimplentes =
     (let inadimplentes_ordenados = sorted_reverse valor_divida inadimplentes;
          n_total = length inadimplentes;
          soma = sum_list (map valor_divida inadimplentes)
      in if inadimplentes_ordenados \<noteq> [] \<and> soma = 0 then Inl ZeroDivisionError
         else Inr (map (\<lambda>(i, inad).
                 \<lparr>rk_posicao = i, rk_nome = nome inad, rk_valor_divida = valor_divida inad,
                  rk_participacao_percentual = quantize (valor_divida inad / soma * 100) (1/10),
                  rk_status = status inad, rk_risco = risco inad, rk_categoria = categoria inad,
                  rk_recomendacao_acao = recomendar_acao_individual inad,
                  rk_prioridade_cobranca = calcular_prioridade_cobranca inad i n_total\<rparr>)
               (zip [1..<Suc n_total] inadimplentes_ordenados)))"

text \<open>\<open>_calcular_indice_gini\<close>: the debts are converted to floats, and the ranks \<open>1..n\<close> are
  paired with them in the order of the list it is given. \<open>(n + 1) / n\<close> divides two integers
  and is their quotient, rounded.\<close>

definition calcular_indice_gini :: "pylib \<Rightarrow> Inadimplente list \<Rightarrow> error + real" where
  "calcular_indice_gini L inadimplentes_ordenados =
     (let valores = map (\<lambda>i. float_of (valor_divida i)) inadimplentes_ordenados;
          n = length valores
      in if n = 0 then Inr 0
         else
           (let index = [1..<Suc n];
                numerador = fmul 2 (py_sum L (map (\<lambda>i. fmul (float_of (real (index ! i)))
                                                          (valores ! i)) [0..<n]));
                denominador = fmul (float_of (real n)) (py_sum L valores)
            in if denominador = 0 then Inl ZeroDivisionError
               else
                 (let gini = fsub (fdiv numerador denominador)
                                  (float_of ((real n + 1) / real n))
                  in Inr (quantize (py_str L gini) (1/1000)))))"

record concentracao =
  concentracao_pareto_20 :: real
  concentracao_top3 :: real
  concentracao_top10 :: real
  valor_top_20_percent :: real
  valor_top_3 :: real
  valor_top_10 :: real
  indice_concentracao :: real

text \<open>\<open>_analisar_concentracao_dividas\<close>; \<open>int(len(inadimplentes) * 0.2)\<close> is the length
  divided by five, rounded down.\<close>

definition analisar_concentracao_dividas ::
    "pylib \<Rightarrow> Inadimplente list \<Rightarrow> error + concentracao" where
  "analisar_concentracao_dividas L inadimplentes =
     (let inadimplentes_ordenados = sorted_reverse valor_divida inadimplentes;
          valor_total = sum_list (map valor_divida inadimplentes);
          top_20_percent = max 1 (length inadimplentes div 5);
          valor_acumulado = sum_list (map valor_divida (take top_20_percent inadimplentes_ordenados));
          top_3_valor = sum_list (map valor_divida (take 3 inadimplentes_ordenados));
          top_10_count = min 10 (length inadimplentes);
          top_10_valor = sum_list (map valor_divida (take top_10_count inadimplentes_ordenados))
      in if valor_total = 0 then Inl ZeroDivisionError
         else
           (case calcular_indice_gini L inadimplentes_ordenados of
              Inl e \<Rightarrow> Inl e
            | Inr g \<Rightarrow>
                Inr \<lparr>concentracao_pareto_20 = quantize (valor_acumulado / valor_total * 100) (1/10),
                     concentracao_top3 = quantize (top_3_valor / valor_total * 100) (1/10),
                     concentracao_top10 = quantize (top_10_valor / valor_total * 100) (1/10),
                     valor_top_20_percent = valor_acumulado,
                     valor_top_3 = top_3_valor,
                     valor_top_10 = top_10_valor,
                     indice_concentracao = g\<rparr>))"

text \<open>\<open>DelinquencyAnalyzer.analisar\<close>: the whole body runs inside \<open>try\<close>, and
  \<open>except Exception\<close> wraps whatever it raises. Of the result dictionary the model keeps the
  converted debtors, the ranking and the concentration; the other entries are computed from
  the same validated debtors and raise nothing more.\<close>

record analise_inadimplencia =
  inadimplentes_analisados :: "Inadimplente list"
  ranking_por_valor :: "ranking_item list"
  concentracao_dividas :: concentracao
  total_inadimplentes :: nat

definition DelinquencyAnalyzer_analisar ::
    "pylib \<Rightarrow> inad_raw list \<Rightarrow> error + analise_inadimplencia" where
  "DelinquencyAnalyzer_analisar L inadimplentes =
     (case (if inadimplentes = [] then Inl (InsufficientDataError ''analise_inadimplencia'' 1 0)
            else
              (case converter_inadimplentes inadimplentes of
                 Inl e \<Rightarrow> Inl e
               | Inr objs \<Rightarrow>
                   (case gerar_ranking_por_valor objs of
                      Inl e \<Rightarrow> Inl e
                    | Inr ranking \<Rightarrow>
                        (case analisar_concentracao_dividas L objs of
                           Inl e \<Rightarrow> Inl e
                         | Inr conc \<Rightarrow>
                             Inr \<lparr>inadimplentes_analisados = objs, ranking_por_valor = ranking,
                                  concentracao_dividas = conc,
                                  total_inadimplentes = length objs\<rparr>)))) of
        Inl e \<Rightarrow> Inl (CalculationError ''analise_inadimplencia'' e)
      | Inr r \<Rightarrow> Inr r)"

section \<open>Statistics (\<open>statistics\<close> of the Python library)\<close>

definition mean :: "real list \<Rightarrow> real" where
  "mean xs = sum_list xs / real (length xs)"

text \<open>The sample standard deviation as a real number: the square root of the sum of squared
  deviations from the mean, divided by \<open>n - 1\<close>, for at least two values. It is the number
  that \<open>statistics.stdev\<close> approximates in floating point.\<close>

definition stdev :: "real list \<Rightarrow> real" where
  "stdev xs = sqrt ((\<Sum>x\<leftarrow>xs. (x - mean xs)\<^sup>2) / (real (length xs) - 1))"

text \<open>The population standard deviation in the words of the specification:
  \<open>\<surd>(\<Sigma>(x - mean)\<^sup>2 / n)\<close>, and 0 for fewer than two values.\<close>

definition populationStdDev :: "real list \<Rightarrow> real" where
  "populationStdDev xs =
     (if length xs < 2 then 0
      else sqrt ((\<Sum>x\<leftarrow>xs. (x - mean xs)\<^sup>2) / real (length xs)))"

section \<open>Cash flow (\<open>analyzers/cashflow_analyzer.py\<close>)\<close>

text \<open>A monthly record as it is given, and the model object \<open>MovimentacaoFinanceira\<close> (its
  field \<open>tipo_periodo\<close> keeps its default and is left out).\<close>

record mov_raw =
  raw_mes :: string
  raw_ano :: "int option"
  raw_credito :: real
  raw_debito :: real
  raw_saldo_operacional :: real

record MovimentacaoFinanceira =
  mes :: string
  ano :: int
  credito :: real
  debito :: real
  saldo_operacional :: real

definition MovimentacaoFinanceira_validada ::
    "MovimentacaoFinanceira \<Rightarrow> error + MovimentacaoFinanceira" where
  "MovimentacaoFinanceira_validada m =
     (if credito m < 0 \<or> debito m < 0
        then Inl (ValidationError ''Valores de credito e debito devem ser positivos'')
      else Inr m)"

definition converter_movimentacao :: "mov_raw \<Rightarrow> error + MovimentacaoFinanceira" where
  "converter_movimentacao mov =
     (case MovimentacaoFinanceira_validada
             \<lparr>mes = raw_mes mov, ano = (case raw_ano mov of None \<Rightarrow> 2025 | Some a \<Rightarrow> a),
              credito = raw_credito mov, debito = \<bar>raw_debito mov\<bar>,
              saldo_operacional = raw_saldo_operacional mov\<rparr> of
        Inl e \<Rightarrow> Inl (CalculationError (''conversao_movimentacao_'' @ raw_mes mov) e)
      | Inr obj \<Rightarrow> Inr obj)"

fun converter_lista_movimentacoes :: "mov_raw list \<Rightarrow> error + MovimentacaoFinanceira list" where
  "converter_lista_movimentacoes [] = Inr []"
| "converter_lista_movimentacoes (mov # rest) =
     (case converter_movimentacao mov of
        Inl e \<Rightarrow> Inl e
      | Inr obj \<Rightarrow>
          (case converter_lista_movimentacoes rest of
             Inl e \<Rightarrow> Inl e
           | Inr objs \<Rightarrow> Inr (obj # objs)))"

text \<open>The month names; the c with cedilla of the third one is its two UTF-8 bytes.\<close>

definition meses_ordem :: "string list" where
  "meses_ordem =
     [''janeiro'', ''fevereiro'', ''mar'' @ [CHR 0xC3, CHR 0xA7] @ ''o'', ''abril'', ''maio'',
      ''junho'', ''julho'', ''agosto'', ''setembro'', ''outubro'', ''novembro'', ''dezembro'']"

text \<open>\<open>list.index\<close>: the first position of a value, \<open>None\<close> where Python raises.\<close>

fun list_index :: "'a list \<Rightarrow> 'a \<Rightarrow> nat option" where
  "list_index [] y = None"
| "list_index (x # xs) y =
     (if x = y then Some 0 else (case list_index xs y of None \<Rightarrow> None | Some i \<Rightarrow> Some (Suc i)))"

definition abreviacoes :: "string \<Rightarrow> nat option" where
  "abreviacoes s =
     (if s = ''mai'' then Some 4 else if s = ''jun'' then Some 5
      else if s = ''jul'' then Some 6 else if s = ''ago'' then Some 7
      else if s = ''set'' then Some 8 else if s = ''out'' then Some 9
      else if s = ''nov'' then Some 10 else if s = ''dez'' then Some 11 else None)"

definition obter_indice_mes :: "string \<Rightarrow> nat" where
  "obter_indice_mes m =
     (let mes_lower = lower m
      in case list_index meses_ordem mes_lower of
           Some i \<Rightarrow> i
         | None \<Rightarrow> (case abreviacoes mes_lower of Some i \<Rightarrow> i | None \<Rightarrow> 0))"

definition converter_movimentacoes :: "mov_raw list \<Rightarrow> error + MovimentacaoFinanceira list" where
  "converter_movimentacoes movimentacoes =
     (case converter_lista_movimentacoes movimentacoes of
        Inl e \<Rightarrow> Inl e
      | Inr movimentacoes_obj \<Rightarrow> Inr (sort_key (\<lambda>x. obter_indice_mes (mes x)) movimentacoes_obj))"

definition calcular_volatilidade_saldos :: "pylib \<Rightarrow> MovimentacaoFinanceira list \<Rightarrow> real" where
  "calcular_volatilidade_saldos L movimentacoes =
     (let saldos = map (\<lambda>mov. float_of (saldo_operacional mov)) movimentacoes
      in if length saldos < 2 then 0
         else (let volatilidade = py_stdev L saldos
               in quantize (py_str L volatilidade) (1/100)))"

text \<open>The model object \<open>TendenciaFinanceira\<close>; the forecast field, never set by the cash-flow
  analyzer, is left out.\<close>

record TendenciaFinanceira =
  metrica :: string
  direcao :: TrendDirection
  intensidade :: real
  periodo_analise :: nat
  pontos_criticos :: "(nat \<times> real) list"
  confiabilidade :: real

text \<open>The validator \<open>validar_percentuais\<close> of \<open>TendenciaFinanceira\<close>.\<close>

definition TendenciaFinanceira_validada :: "TendenciaFinanceira \<Rightarrow> error + TendenciaFinanceira" where
  "TendenciaFinanceira_validada t =
     (if \<not> (0 \<le> intensidade t \<and> intensidade t \<le> 100)
        then Inl (ValidationError ''Valores devem estar entre 0 e 100'')
      else if \<not> (0 \<le> confiabilidade t \<and> confiabilidade t \<le> 100)
        then Inl (ValidationError ''Valores devem estar entre 0 e 100'')
      else Inr t)"

text \<open>The least-squares slope of \<open>_calcular_tendencia_metrica\<close>, over the positions
  \<open>0..n-1\<close>. The positions and their sums are integers; an integer that meets a float is
  converted to a float.\<close>

definition slope_regressao :: "pylib \<Rightarrow> real list \<Rightarrow> real" where
  "slope_regressao L valores_float =
     (let n = length valores_float;
          x = [0..<n];
          sum_x = int (sum_list x);
          sum_y = py_sum L valores_float;
          sum_xy = py_sum L (map (\<lambda>i. fmul (float_of (real (x ! i))) (valores_float ! i)) [0..<n]);
          sum_x2 = int (\<Sum>xi\<leftarrow>x. xi\<^sup>2)
      in if int n * sum_x2 - sum_x\<^sup>2 = 0 then 0
         else fdiv (fsub (fmul (float_of (real n)) sum_xy)
                         (fmul (float_of (of_int sum_x)) sum_y))
                   (float_of (of_int (int n * sum_x2 - sum_x\<^sup>2))))"

text \<open>\<open>_calcular_tendencia_metrica\<close>. The values are converted to floats; the slope is
  compared with the float \<open>0.1\<close>. \<open>max(valores_float)\<close> raises on an empty list, and the
  division by it raises when it is zero. \<open>periodo_analise\<close> holds the number of months of the
  text \<open>"n meses"\<close>, and a critical point holds the month number and the negative value that
  the source renders as text.\<close>

definition calcular_tendencia_metrica ::
    "pylib \<Rightarrow> real list \<Rightarrow> string \<Rightarrow> error + TendenciaFinanceira" where
  "calcular_tendencia_metrica L valores nome_metrica =
     (let valores_float = map float_of valores;
          slope = slope_regressao L valores_float;
          direcao_intensidade =
            (if \<bar>slope\<bar> < float_of (1/10) then (ESTAVEL, 20)
             else if slope > 0 then (CRESCIMENTO, min 100 (py_str L \<bar>fmul slope 100\<bar>))
             else (DECLINIO, min 100 (py_str L \<bar>fmul slope 100\<bar>)));
          volatilidade = (if length valores_float > 1 then py_stdev L valores_float else 0)
      in if valores_float = [] then Inl ValueError
         else if Max (set valores_float) = 0 then Inl ZeroDivisionError
         else
           (let conf = max 50 (100 - py_str L (fmul (fdiv volatilidade (Max (set valores_float)))
                                                     100));
                pontos = map (\<lambda>i. (i + 1, valores ! i))
                             (filter (\<lambda>i. valores ! i < 0) [0..<length valores])
            in TendenciaFinanceira_validada
                 \<lparr>metrica = nome_metrica, direcao = fst direcao_intensidade,
                  intensidade = quantize (snd direcao_intensidade) (1/10),
                  periodo_analise = length valores, pontos_criticos = pontos,
                  confiabilidade = quantize conf (1/10)\<rparr>))"

definition analisar_tendencias ::
    "pylib \<Rightarrow> MovimentacaoFinanceira list \<Rightarrow> error + TendenciaFinanceira list" where
  "analisar_tendencias L movimentacoes =
     (case calcular_tendencia_metrica L (map credito movimentacoes) ''Creditos Mensais'' of
        Inl e \<Rightarrow> Inl e
      | Inr tendencia_creditos \<Rightarrow>
          (case calcular_tendencia_metrica L (map debito movimentacoes) ''Debitos Mensais'' of
             Inl e \<Rightarrow> Inl e
           | Inr tendencia_debitos \<Rightarrow>
               (case calcular_tendencia_metrica L (map saldo_operacional movimentacoes)
                       ''Saldo Operacional'' of
                  Inl e \<Rightarrow> Inl e
                | Inr tendencia_saldo \<Rightarrow>
                    Inr [tendencia_creditos, tendencia_debitos, tendencia_saldo])))"

text \<open>The two alerts of \<open>_gerar_alertas_cashflow\<close>: the critical one carries the count of
  consecutive negative months of its description, the other one the volatility.\<close>

datatype alerta = MesesConsecutivosNegativos nat | AltaVolatilidade real

fun alerta_tipo :: "alerta \<Rightarrow> string" where
  "alerta_tipo (MesesConsecutivosNegativos k) = ''CRITICO''"
| "alerta_tipo (AltaVolatilidade v) = ''ATENCAO''"

fun alerta_titulo :: "alerta \<Rightarrow> string" where
  "alerta_titulo (MesesConsecutivosNegativos k) = ''Meses Consecutivos com Saldo Negativo''"
| "alerta_titulo (AltaVolatilidade v) = ''Alta Volatilidade no Fluxo de Caixa''"

text \<open>The first loop of \<open>_gerar_alertas_cashflow\<close>, with the counter
  \<open>meses_negativos_consecutivos\<close> as an argument; \<open>break\<close> ends it at the first alert.\<close>

fun alertas_meses_negativos :: "nat \<Rightarrow> MovimentacaoFinanceira list \<Rightarrow> alerta list" where
  "alertas_meses_negativos meses_negativos_consecutivos [] = []"
| "alertas_meses_negativos meses_negativos_consecutivos (mov # rest) =
     (let k = (if saldo_operacional mov < 0 then meses_negativos_consecutivos + 1 else 0)
      in if k \<ge> 2 then [MesesConsecutivosNegativos k]
         else alertas_meses_negativos k rest)"

text \<open>\<open>_gerar_alertas_cashflow\<close>; its second parameter \<open>meses_criticos\<close> is not read. The mean
  of the balances divides by the number of movements; the volatility and the mean are
  converted to floats for the comparison.\<close>

definition gerar_alertas_cashflow ::
    "pylib \<Rightarrow> MovimentacaoFinanceira list \<Rightarrow> error + alerta list" where
  "gerar_alertas_cashflow L movimentacoes =
     (let alertas = alertas_meses_negativos 0 movimentacoes;
          volatilidade = calcular_volatilidade_saldos L movimentacoes
      in if movimentacoes = [] then Inl ZeroDivisionError
         else
           (let media_saldos = sum_list (map saldo_operacional movimentacoes)
                                 / real (length movimentacoes)
            in Inr (alertas @ (if float_of volatilidade > fmul \<bar>float_of media_saldos\<bar> (1/2)
                               then [AltaVolatilidade volatilidade] else []))))"

text \<open>\<open>CashFlowAnalyzer.analisar\<close>. The model keeps, of the result dictionary, the sorted
  movements, the volatility of the monthly summary, the trends and the alerts. The other
  steps raise nothing once the trends have been computed.\<close>

record analise_cashflow =
  movimentacoes_analisadas :: "MovimentacaoFinanceira list"
  volatilidade_resumo :: real
  tendencias :: "TendenciaFinanceira list"
  alertas_cashflow :: "alerta list"

definition CashFlowAnalyzer_analisar :: "pylib \<Rightarrow> mov_raw list \<Rightarrow> error + analise_cashflow" where
  "CashFlowAnalyzer_analisar L movimentacoes =
     (case (if length movimentacoes < 2
              then Inl (InsufficientDataError ''analise_cashflow'' 2 (length movimentacoes))
            else
              (case converter_movimentacoes movimentacoes of
                 Inl e \<Rightarrow> Inl e
               | Inr movimentacoes_obj \<Rightarrow>
                   (case analisar_tendencias L movimentacoes_obj of
                      Inl e \<Rightarrow> Inl e
                    | Inr tends \<Rightarrow>
                        (case gerar_alertas_cashflow L movimentacoes_obj of
                           Inl e \<Rightarrow> Inl e
                         | Inr alertas \<Rightarrow>
                             Inr \<lparr>movimentacoes_analisadas = movimentacoes_obj,
                                  volatilidade_resumo =
                                    calcular_volatilidade_saldos L movimentacoes_obj,
                                  tendencias = tends,
                                  alertas_cashflow = alertas\<rparr>)))) of
        Inl e \<Rightarrow> Inl (CalculationError ''analise_cashflow'' e)
      | Inr r \<Rightarrow> Inr r)"

section \<open>Generic trend analyzer (\<open>analyzers/trend_analyzer.py\<close>)\<close>

definition min_periodos_tendencia :: nat where
  "min_periodos_tendencia = 3"

text \<open>\<open>TrendAnalyzer.analisar\<close>: the test on the number of periods and the \<open>except\<close> clause
  around the whole body. The analysis after the test is the parameter \<open>corpo\<close>.\<close>

definition TrendAnalyzer_analisar :: "('d list \<Rightarrow> error + 'r) \<Rightarrow> 'd list \<Rightarrow> error + 'r" where
  "TrendAnalyzer_analisar corpo dados_temporais =
     (case (if length dados_temporais < min_periodos_tendencia
              then Inl (InsufficientDataError ''analise_tendencias'' min_periodos_tendencia
                          (length dados_temporais))
            else corpo dados_temporais) of
        Inl e \<Rightarrow> Inl (CalculationError ''analise_tendencias'' e)
      | Inr r \<Rightarrow> Inr r)"

section \<open>Insights (\<open>insights/insight_engine.py\<close>)\<close>

text \<open>The model object \<open>InsightFinanceiro\<close>, without the related metrics and the generation
  date, which the ordering does not read.\<close>

record InsightFinanceiro =
  tipo :: InsightType
  titulo :: string
  descricao :: string
  prioridade :: InsightPriority
  valor_impacto :: "real option"
  recomendacoes :: "string list"
  score_confianca :: "real option"

fun ordem_prioridade :: "InsightPriority \<Rightarrow> nat" where
  "ordem_prioridade CRITICA = 4"
| "ordem_prioridade ALTA = 3"
| "ordem_prioridade MEDIA = 2"
| "ordem_prioridade BAIXA = 1"

text \<open>\<open>x.valor_impacto or 0\<close>: an absent impact counts as zero.\<close>

definition impacto :: "InsightFinanceiro \<Rightarrow> real" where
  "impacto x = (case valor_impacto x of None \<Rightarrow> 0 | Some v \<Rightarrow> v)"

text \<open>The sort key of \<open>_priorizar_insights\<close>, the tuple
  \<open>(ordem_prioridade.get(x.prioridade, 0), float(x.valor_impacto or 0))\<close>, compared
  lexicographically: the impact enters it as a float.\<close>

definition chave_prioridade :: "InsightFinanceiro \<Rightarrow> nat \<times> real" where
  "chave_prioridade x = (ordem_prioridade (prioridade x), float_of (impacto x))"

definition priorizar_insights :: "InsightFinanceiro list \<Rightarrow> InsightFinanceiro list" where
  "priorizar_insights insights = sorted_reverse chave_prioridade insights"

section \<open>Example inputs\<close>

text \<open>The library routines as they act on the examples of this theory: the sum adds from
  left to right and rounds each addition, as CPython does up to version 3.11 (later versions
  compensate the roundings; no addition of the examples rounds); the standard deviation is
  the exact sample standard deviation of the floats, rounded, as \<open>statistics.stdev\<close> returns
  it from version 3.11 on; and the text of a float denotes the float itself, as it does for
  the floats 0, 1, 2, 25, 100 and 200 that the evaluations below print. Where a float has no
  exact short text (the index of concentration of claim C1, the volatility of the balances
  100, 100, 100 and 100.01) the result is proved for every library that prints a float to
  within one part in \<open>10\<^sup>1\<^sup>5\<close>, and this one is an instance.\<close>

definition pylib_ref :: pylib where
  "pylib_ref = \<lparr>py_sum = foldl fadd 0, py_stdev = (\<lambda>xs. float_of (stdev xs)),
                 py_str = (\<lambda>v. v)\<rparr>"

text \<open>Two insights of the same priority whose impacts, 0.1 and 0.10000000000000000001,
  differ below the precision of a float.\<close>

definition insight_x :: InsightFinanceiro where
  "insight_x = \<lparr>tipo = KPI, titulo = ''x'', descricao = [], prioridade = ALTA,
     valor_impacto = Some (1/10), recomendacoes = [], score_confianca = None\<rparr>"

definition insight_y :: InsightFinanceiro where
  "insight_y = \<lparr>tipo = KPI, titulo = ''y'', descricao = [], prioridade = ALTA,
     valor_impacto = Some (1/10 + 1/10^20), recomendacoes = [], score_confianca = None\<rparr>"

text \<open>A ledger of three debtors who owe the same amount.\<close>

definition ledger_igual :: "Inadimplente list" where
  "ledger_igual =
     [\<lparr>nome = ''A'', valor_divida = 5000, status = CONFISSAO_DIVIDA, dias_atraso = Some 60,
       categoria = None, observacoes = None, risco = Some ALTO\<rparr>,
      \<lparr>nome = ''B'', valor_divida = 5000, status = CONFISSAO_DIVIDA, dias_atraso = Some 60,
       categoria = None, observacoes = None, risco = Some ALTO\<rparr>,
      \<lparr>nome = ''C'', valor_divida = 5000, status = CONFISSAO_DIVIDA, dias_atraso = Some 60,
       categoria = None, observacoes = None, risco = Some ALTO\<rparr>]"

text \<open>Four months with balances 100, 100, 100 and 100.01.\<close>

definition movs_centavo :: "MovimentacaoFinanceira list" where
  "movs_centavo =
     [\<lparr>mes = ''Maio'', ano = 2025, credito = 100, debito = 0, saldo_operacional = 100\<rparr>,
      \<lparr>mes = ''Junho'', ano = 2025, credito = 100, debito = 0, saldo_operacional = 100\<rparr>,
      \<lparr>mes = ''Julho'', ano = 2025, credito = 100, debito = 0, saldo_operacional = 100\<rparr>,
      \<lparr>mes = ''Agosto'', ano = 2025, credito = 10001/100, debito = 0,
       saldo_operacional = 10001/100\<rparr>]"

definition insight_a :: InsightFinanceiro where
  "insight_a = \<lparr>tipo = KPI, titulo = ''a'', descricao = [], prioridade = ALTA,
     valor_impacto = Some 500, recomendacoes = [], score_confianca = None\<rparr>"

definition insight_b :: InsightFinanceiro where
  "insight_b = \<lparr>tipo = FLUXO_CAIXA, titulo = ''b'', descricao = [], prioridade = CRITICA,
     valor_impacto = None, recomendacoes = [], score_confianca = None\<rparr>"

definition insight_c :: InsightFinanceiro where
  "insight_c = \<lparr>tipo = INADIMPLENCIA, titulo = ''c'', descricao = [], prioridade = ALTA,
     valor_impacto = Some 900, recomendacoes = [], score_confianca = None\<rparr>"

definition insight_d :: InsightFinanceiro where
  "insight_d = \<lparr>tipo = KPI, titulo = ''d'', descricao = [], prioridade = ALTA,
     valor_impacto = Some 500, recomendacoes = [], score_confianca = None\<rparr>"

text \<open>A ledger of two debtors without the key \<open>dias_atraso\<close>, one of them owing one cent.\<close>

definition ledger_sem_dias :: "inad_raw list" where
  "ledger_sem_dias =
     [\<lparr>raw_nome = ''Loja A'', raw_valor_divida = 1/100, raw_status = None,
       raw_dias_atraso = None, raw_categoria = None, raw_observacoes = None\<rparr>,
      \<lparr>raw_nome = ''Loja B'', raw_valor_divida = 60000, raw_status = Some ''JURIDICO'',
       raw_dias_atraso = None, raw_categoria = None, raw_observacoes = None\<rparr>]"

text \<open>Four months with two negative balances next to each other, and four months whose
  negative balances are never adjacent.\<close>

definition movs_adjacentes :: "MovimentacaoFinanceira list" where
  "movs_adjacentes =
     [\<lparr>mes = ''Maio'', ano = 2025, credito = 10, debito = 11, saldo_operacional = -1\<rparr>,
      \<lparr>mes = ''Junho'', ano = 2025, credito = 10, debito = 5, saldo_operacional = 5\<rparr>,
      \<lparr>mes = ''Julho'', ano = 2025, credito = 10, debito = 12, saldo_operacional = -2\<rparr>,
      \<lparr>mes = ''Agosto'', ano = 2025, credito = 10, debito = 13, saldo_operacional = -3\<rparr>]"

definition movs_intercalados :: "MovimentacaoFinanceira list" where
  "movs_intercalados =
     [\<lparr>mes = ''Maio'', ano = 2025, credito = 10, debito = 11, saldo_operacional = -1\<rparr>,
      \<lparr>mes = ''Junho'', ano = 2025, credito = 10, debito = 5, saldo_operacional = 5\<rparr>,
      \<lparr>mes = ''Julho'', ano = 2025, credito = 10, debito = 12, saldo_operacional = -2\<rparr>,
      \<lparr>mes = ''Agosto'', ano = 2025, credito = 10, debito = 6, saldo_operacional = 4\<rparr>]"

text \<open>The ledger of the third end-to-end scenario of the specification, not yet ranked.\<close>

definition ledger_cenario :: "Inadimplente list" where
  "ledger_cenario =
     [\<lparr>nome = ''B'', valor_divida = 35000, status = CONFISSAO_DIVIDA, dias_atraso = Some 60,
       categoria = None, observacoes = None, risco = Some ALTO\<rparr>,
      \<lparr>nome = ''D'', valor_divida = 243291/100, status = CONFISSAO_DIVIDA, dias_atraso = Some 60,
       categoria = None, observacoes = None, risco = Some ALTO\<rparr>,
      \<lparr>nome = ''A'', valor_divida = 58980, status = CONFISSAO_DIVIDA, dias_atraso = Some 60,
       categoria = None, observacoes = None, risco = Some MUITO_ALTO\<rparr>,
      \<lparr>nome = ''C'', valor_divida = 1166667/100, status = CONFISSAO_DIVIDA, dias_atraso = Some 60,
       categoria = None, observacoes = None, risco = Some ALTO\<rparr>]"

text \<open>A ledger of three debtors in which one of them holds nearly the whole debt.\<close>

definition ledger_concentrado :: "inad_raw list" where
  "ledger_concentrado =
     [\<lparr>raw_nome = ''Loja A'', raw_valor_divida = 1, raw_status = None,
       raw_dias_atraso = Some 10, raw_categoria = None, raw_observacoes = None\<rparr>,
      \<lparr>raw_nome = ''Loja B'', raw_valor_divida = 1000000, raw_status = None,
       raw_dias_atraso = Some 10, raw_categoria = None, raw_observacoes = None\<rparr>,
      \<lparr>raw_nome = ''Loja C'', raw_valor_divida = 1, raw_status = None,
       raw_dias_atraso = Some 10, raw_categoria = None, raw_observacoes = None\<rparr>]"

text \<open>Three months with operating balances -1, 0 and 1.\<close>

definition movs_tres :: "MovimentacaoFinanceira list" where
  "movs_tres =
     [\<lparr>mes = ''Maio'', ano = 2025, credito = 10, debito = 11, saldo_operacional = -1\<rparr>,
      \<lparr>mes = ''Junho'', ano = 2025, credito = 10, debito = 10, saldo_operacional = 0\<rparr>,
      \<lparr>mes = ''Julho'', ano = 2025, credito = 10, debito = 9, saldo_operacional = 1\<rparr>]"

text \<open>A single monthly record.\<close>

definition mov_unico :: mov_raw where
  "mov_unico = \<lparr>raw_mes = ''Maio'', raw_ano = Some 2025, raw_credito = 100, raw_debito = -40,
     raw_saldo_operacional = 60\<rparr>"

text \<open>Three monthly records, given out of order, whose operating balances are all
  negative.\<close>

definition movs_deficit :: "mov_raw list" where
  "movs_deficit =
     [\<lparr>raw_mes = ''Julho'', raw_ano = None, raw_credito = 1, raw_debito = -2,
       raw_saldo_operacional = -1\<rparr>,
      \<lparr>raw_mes = ''Maio'', raw_ano = None, raw_credito = 1, raw_debito = -4,
       raw_saldo_operacional = -3\<rparr>,
      \<lparr>raw_mes = ''Junho'', raw_ano = None, raw_credito = 1, raw_debito = -3,
       raw_saldo_operacional = -2\<rparr>]"

text \<open>Three monthly records, given out of order, with deficits in May and June and a
  surplus in July.\<close>

definition movs_recuperacao :: "mov_raw list" where
  "movs_recuperacao =
     [\<lparr>raw_mes = ''Julho'', raw_ano = None, raw_credito = 1, raw_debito = -2,
       raw_saldo_operacional = 1\<rparr>,
      \<lparr>raw_mes = ''Maio'', raw_ano = None, raw_credito = 1, raw_debito = -4,
       raw_saldo_operacional = -3\<rparr>,
      \<lparr>raw_mes = ''Junho'', raw_ano = None, raw_credito = 1, raw_debito = -3,
       raw_saldo_operacional = -1\<rparr>]"

section \<open>Properties of rounding\<close>

lemma round_half_even_cases:
  "round_half_even x = \<lfloor>x\<rfloor> \<and> x - of_int \<lfloor>x\<rfloor> \<le> 1/2
   \<or> round_half_even x = \<lfloor>x\<rfloor> + 1 \<and> 1/2 \<le> x - of_int \<lfloor>x\<rfloor>"
  by (auto simp: round_half_even_def Let_def)

lemma round_half_even_error: "\<bar>of_int (round_half_even x) - x\<bar> \<le> 1/2"
proof -
  have "of_int \<lfloor>x\<rfloor> \<le> x" and "x < of_int \<lfloor>x\<rfloor> + 1" by linarith+
  with round_half_even_cases [of x] show ?thesis by auto
qed

lemma round_half_even_ge: "of_int k \<le> x \<Longrightarrow> k \<le> round_half_even x"
proof -
  assume "of_int k \<le> x"
  then have "k \<le> \<lfloor>x\<rfloor>" by (simp add: le_floor_iff)
  with round_half_even_cases [of x] show ?thesis by auto
qed

lemma round_half_even_le: "x \<le> of_int k \<Longrightarrow> round_half_even x \<le> k"
proof -
  assume h: "x \<le> of_int k"
  have fl: "of_int \<lfloor>x\<rfloor> \<le> x" by linarith
  from round_half_even_cases [of x] show ?thesis
  proof
    assume "round_half_even x = \<lfloor>x\<rfloor> \<and> x - of_int \<lfloor>x\<rfloor> \<le> 1/2"
    moreover have "\<lfloor>x\<rfloor> \<le> k" using h by (simp add: floor_le_iff) 
    ultimately show ?thesis by simp
  next
    assume a: "round_half_even x = \<lfloor>x\<rfloor> + 1 \<and> 1/2 \<le> x - of_int \<lfloor>x\<rfloor>"
    then have "of_int \<lfloor>x\<rfloor> < x" by linarith
    with h have "(of_int \<lfloor>x\<rfloor> :: real) < of_int k" by linarith
    then have "\<lfloor>x\<rfloor> < k" by simp
    with a show ?thesis by simp
  qed
qed

lemma round_half_even_of_int [simp]: "round_half_even (of_int k) = k"
  by (simp add: round_half_even_def)

lemma quantize_error: "0 < q \<Longrightarrow> \<bar>quantize x q - x\<bar> \<le> q / 2"
proof -
  assume q: "0 < q"
  define r :: real where "r = of_int (round_half_even (x / q))"
  have e: "\<bar>r - x / q\<bar> \<le> 1/2" unfolding r_def by (rule round_half_even_error)
  have "quantize x q - x = (r - x / q) * q"
    using q by (simp add: quantize_def r_def left_diff_distrib)
  then have "\<bar>quantize x q - x\<bar> = \<bar>r - x / q\<bar> * q"
    using q by (simp add: abs_mult)
  also have "\<dots> \<le> 1/2 * q" using e q by (rule mult_right_mono [OF _ less_imp_le])
  finally show ?thesis by simp
qed

lemma quantize_ge: "0 < q \<Longrightarrow> of_int k * q \<le> x \<Longrightarrow> of_int k * q \<le> quantize x q"
proof -
  assume q: "0 < q" and h: "of_int k * q \<le> x"
  then have "of_int k \<le> x / q" by (simp add: le_divide_eq)
  then have "k \<le> round_half_even (x / q)" by (rule round_half_even_ge)
  then have "(of_int k :: real) \<le> of_int (round_half_even (x / q))" by simp
  then show ?thesis using q by (simp add: quantize_def)
qed

lemma quantize_le: "0 < q \<Longrightarrow> x \<le> of_int k * q \<Longrightarrow> quantize x q \<le> of_int k * q"
proof -
  assume q: "0 < q" and h: "x \<le> of_int k * q"
  then have "x / q \<le> of_int k" by (simp add: divide_le_eq)
  then have "round_half_even (x / q) \<le> k" by (rule round_half_even_le)
  then have "(of_int (round_half_even (x / q)) :: real) \<le> of_int k" by simp
  then show ?thesis using q by (simp add: quantize_def)
qed

lemma round_half_even_eqI:
  assumes "of_int k - 1/2 < x" and "x < of_int k + 1/2"
  shows "round_half_even x = k"
proof (cases "x < of_int k")
  case True
  have "\<lfloor>x\<rfloor> = k - 1" using assms True by (simp add: floor_eq_iff)
  then show ?thesis using assms by (simp add: round_half_even_def Let_def)
next
  case False
  have "\<lfloor>x\<rfloor> = k" using assms False by (simp add: floor_eq_iff)
  then show ?thesis using assms by (simp add: round_half_even_def Let_def)
qed

lemma round_half_even_numeral [simp]: "round_half_even (numeral k) = numeral k"
  using round_half_even_of_int [of "numeral k"] by simp

lemma round_half_even_zero [simp]: "round_half_even 0 = 0"
  using round_half_even_of_int [of 0] by simp

lemma quantize_zero [simp]: "quantize 0 q = 0"
  by (simp add: quantize_def)

section \<open>Properties of floating point\<close>

lemma pow2_powr: "pow2 e = 2 powr (of_int e)"
proof (cases "0 \<le> e")
  case True
  then have "(2::real) powr (of_int e) = 2 powr (real (nat e))" by simp
  also have "\<dots> = 2 ^ nat e" by (rule powr_realpow) simp
  finally show ?thesis using True by (simp add: pow2_def)
next
  case False
  then have "(2::real) powr (of_int e) = 2 powr (- real (nat (- e)))" by simp
  also have "\<dots> = 1 / 2 powr (real (nat (- e)))" by (simp only: powr_minus_divide)
  also have "2 powr (real (nat (- e))) = (2::real) ^ nat (- e)"
    by (rule powr_realpow) simp
  finally show ?thesis using False by (simp add: pow2_def)
qed

lemma pow2_pos [simp]: "0 < pow2 e"
  by (simp add: pow2_powr)

lemma pow2_neq0 [simp]: "pow2 e \<noteq> 0"
  using pow2_pos [of e] by (simp del: pow2_pos)

lemma pow2_add: "pow2 (a + b) = pow2 a * pow2 b"
  by (simp add: pow2_powr powr_add)

lemma floor_log2:
  assumes "pow2 e \<le> \<bar>x\<bar>" and "\<bar>x\<bar> < pow2 (e + 1)"
  shows "\<lfloor>log 2 \<bar>x\<bar>\<rfloor> = e"
proof -
  have pos: "0 < \<bar>x\<bar>" using assms(1) pow2_pos [of e] by linarith
  have "of_int e \<le> log 2 \<bar>x\<bar>"
    using assms(1) pos by (simp add: pow2_powr le_log_iff)
  moreover have "log 2 \<bar>x\<bar> < of_int e + 1"
    using assms(2) pos by (simp add: pow2_powr log_less_iff)
  ultimately show ?thesis by (simp add: floor_eq_iff)
qed

lemma float_of_eqI:
  assumes "pow2 e \<le> \<bar>x\<bar>" and "\<bar>x\<bar> < pow2 (e + 1)"
  shows "float_of x = of_int (round_half_even (x / pow2 (e - 52))) * pow2 (e - 52)"
proof -
  from pow2_pos assms(1) have "0 < \<bar>x\<bar>" by (rule less_le_trans)
  then have "x \<noteq> 0" by auto
  then show ?thesis by (simp add: float_of_def Let_def floor_log2 [OF assms])
qed

lemma float_of_exactI:
  assumes "pow2 e \<le> \<bar>x\<bar>" and "\<bar>x\<bar> < pow2 (e + 1)" and "x / pow2 (e - 52) = of_int j"
  shows "float_of x = x"
proof -
  have "float_of x = of_int j * pow2 (e - 52)"
    by (simp add: float_of_eqI [OF assms(1,2)] assms(3))
  also have "\<dots> = x" by (simp add: assms(3) [symmetric])
  finally show ?thesis .
qed

lemma log2_bracket:
  assumes "x \<noteq> 0"
  shows "pow2 \<lfloor>log 2 \<bar>x\<bar>\<rfloor> \<le> \<bar>x\<bar> \<and> \<bar>x\<bar> < pow2 (\<lfloor>log 2 \<bar>x\<bar>\<rfloor> + 1)"
proof -
  have pos: "0 < \<bar>x\<bar>" using assms by simp
  have c: "2 powr (log 2 \<bar>x\<bar>) = \<bar>x\<bar>" using pos by simp
  have "2 powr (of_int \<lfloor>log 2 \<bar>x\<bar>\<rfloor>) \<le> 2 powr (log 2 \<bar>x\<bar>)"
    by (rule powr_mono) simp_all
  then have a: "pow2 \<lfloor>log 2 \<bar>x\<bar>\<rfloor> \<le> \<bar>x\<bar>"
    by (simp only: c pow2_powr)
  have "2 powr (log 2 \<bar>x\<bar>) < 2 powr (of_int (\<lfloor>log 2 \<bar>x\<bar>\<rfloor> + 1))"
  proof (rule powr_less_mono)
    show "log 2 \<bar>x\<bar> < of_int (\<lfloor>log 2 \<bar>x\<bar>\<rfloor> + 1)"
      using real_of_int_floor_add_one_gt [of "log 2 \<bar>x\<bar>"] by simp
  qed simp
  then have b: "\<bar>x\<bar> < pow2 (\<lfloor>log 2 \<bar>x\<bar>\<rfloor> + 1)"
    by (simp only: c pow2_powr)
  from a b show ?thesis ..
qed

lemma float_of_zero [simp]: "float_of 0 = 0"
  by (simp add: float_of_def)

lemma float_of_nonneg: "0 \<le> x \<Longrightarrow> 0 \<le> float_of x"
proof (cases "x = 0")
  case True
  then show ?thesis by simp
next
  case False
  assume "0 \<le> x"
  define u where "u = pow2 (\<lfloor>log 2 \<bar>x\<bar>\<rfloor> - 52)"
  have u: "0 < u" by (simp add: u_def)
  have "of_int 0 \<le> x / u" using \<open>0 \<le> x\<close> u by simp
  then have "0 \<le> round_half_even (x / u)" by (rule round_half_even_ge)
  then have "0 \<le> of_int (round_half_even (x / u)) * u" using u by simp
  moreover have "float_of x = of_int (round_half_even (x / u)) * u"
    using False unfolding float_of_def Let_def u_def by simp
  ultimately show ?thesis by simp
qed

lemma float_of_pos: "0 < x \<Longrightarrow> 0 < float_of x"
proof -
  assume x: "0 < x"
  define e where "e = \<lfloor>log 2 \<bar>x\<bar>\<rfloor>"
  define u where "u = pow2 (e - 52)"
  have u: "0 < u" by (simp add: u_def)
  from log2_bracket [of x] x have "pow2 e \<le> x" by (simp add: e_def)
  moreover have "pow2 e = pow2 52 * u" unfolding u_def by (simp add: pow2_add [symmetric])
  ultimately have "pow2 52 \<le> x / u" using u by (simp add: le_divide_eq)
  moreover have "of_int 1 \<le> pow2 52" by (simp add: pow2_def)
  ultimately have "of_int 1 \<le> x / u" by linarith
  then have "1 \<le> round_half_even (x / u)" by (rule round_half_even_ge)
  then have "0 < of_int (round_half_even (x / u)) * u" using u by simp
  moreover have "float_of x = of_int (round_half_even (x / u)) * u"
    using x unfolding float_of_def Let_def u_def e_def by simp
  ultimately show ?thesis by simp
qed

lemma float_of_dyadic:
  assumes "\<bar>k\<bar> < 2 ^ 53"
  shows "float_of (of_int k * pow2 z) = of_int k * pow2 z"
proof (cases "k = 0")
  case True
  then show ?thesis by simp
next
  case False
  define x where "x = of_int k * pow2 z"
  define e where "e = \<lfloor>log 2 \<bar>real_of_int k\<bar>\<rfloor>"
  have k0: "real_of_int k \<noteq> 0" using False by simp
  from log2_bracket [OF k0] have br: "pow2 e \<le> \<bar>real_of_int k\<bar>" "\<bar>real_of_int k\<bar> < pow2 (e + 1)"
    by (simp_all add: e_def)
  have "1 \<le> \<bar>real_of_int k\<bar>" using False by (simp add: abs_if)
  then have "0 \<le> log 2 \<bar>real_of_int k\<bar>" by simp
  then have e0: "0 \<le> e" by (simp add: e_def)
  have "\<bar>real_of_int k\<bar> < 2 ^ 53" using assms by (metis of_int_abs of_int_less_numeral_power_cancel_iff)
  then have "log 2 \<bar>real_of_int k\<bar> < 53" using k0 by (simp add: log_less_iff powr_realpow [symmetric] flip: powr_numeral)
  then have e52: "e \<le> 52" by (simp add: e_def floor_le_iff)
  have b1: "pow2 (e + z) \<le> \<bar>x\<bar>"
    using br(1) by (simp add: x_def pow2_add abs_mult abs_of_pos mult_right_mono)
  have b2: "\<bar>x\<bar> < pow2 (e + z + 1)"
  proof -
    have "pow2 (e + z + 1) = pow2 (e + 1) * pow2 z" by (simp add: pow2_add [symmetric] ac_simps)
    then show ?thesis using br(2) by (simp add: x_def abs_mult abs_of_pos)
  qed
  have "pow2 z = pow2 (e + z - 52) * pow2 (52 - e)" by (simp add: pow2_add [symmetric])
  then have "x / pow2 (e + z - 52) = of_int k * pow2 (52 - e)"
    by (simp add: x_def)
  also have "pow2 (52 - e) = of_int (2 ^ nat (52 - e))" using e52 by (simp add: pow2_def)
  finally have "x / pow2 (e + z - 52) = of_int (k * 2 ^ nat (52 - e))" by simp
  from float_of_exactI [OF b1 b2 this] show ?thesis by (simp add: x_def)
qed

lemma float_of_int: "\<bar>k\<bar> < 2 ^ 53 \<Longrightarrow> float_of (of_int k) = of_int k"
  using float_of_dyadic [of k 0] by (simp add: pow2_def)


lemma float_of_numeral [simp]:
  "\<bar>numeral n :: int\<bar> < 2 ^ 53 \<Longrightarrow> float_of (numeral n) = numeral n"
  using float_of_int [of "numeral n"] by simp

lemma float_of_neg_numeral [simp]:
  "\<bar>numeral n :: int\<bar> < 2 ^ 53 \<Longrightarrow> float_of (- numeral n) = - numeral n"
  using float_of_int [of "- numeral n"] by simp

lemma float_of_one [simp]: "float_of 1 = 1"
  using float_of_int [of 1] by simp

lemma float_of_neg_one [simp]: "float_of (- 1) = - 1"
  using float_of_int [of "- 1"] by simp

lemma float_of_quarter [simp]: "float_of (1/4) = 1/4"
  using float_of_dyadic [of 1 "-2"] by (simp add: pow2_def)

lemma float_of_half [simp]: "float_of (1/2) = 1/2"
  using float_of_dyadic [of 1 "-1"] by (simp add: pow2_def)

lemma float_of_tenth: "float_of (1/10) = 3602879701896397/36028797018963968"
  by (simp add: float_of_eqI [of "-4"] pow2_def round_half_even_def)

lemma float_of_tenth_plus: "float_of (1/10 + 1/10^20) = 3602879701896397/36028797018963968"
  by (simp add: float_of_eqI [of "-4"] pow2_def round_half_even_def)


section \<open>Properties of sorting\<close>

lemma mset_sorted_reverse [simp]: "mset (sorted_reverse f xs) = mset xs"
  by (simp add: sorted_reverse_def)

lemma length_sorted_reverse [simp]: "length (sorted_reverse f xs) = length xs"
  by (simp add: sorted_reverse_def)

lemma set_sorted_reverse [simp]: "set (sorted_reverse f xs) = set xs"
  by (simp add: sorted_reverse_def)

lemma sorted_reverse_descending: "sorted_wrt (\<lambda>a b. f b \<le> f a) (sorted_reverse f xs)"
proof -
  have "sorted (map f (sort_key f (rev xs)))" by simp
  then have "sorted_wrt (\<lambda>x y. f x \<le> f y) (sort_key f (rev xs))"
    by (simp only: sorted_map)
  then show ?thesis by (simp add: sorted_reverse_def sorted_wrt_rev)
qed

lemma sorted_reverse_stable:
  "filter (\<lambda>y. f y = k) (sorted_reverse f xs) = filter (\<lambda>y. f y = k) xs"
proof -
  have "filter (\<lambda>y. f y = k) (sorted_reverse f xs)
          = rev (filter (\<lambda>y. f y = k) (sort_key f (rev xs)))"
    by (simp add: sorted_reverse_def rev_filter)
  also have "\<dots> = rev (filter (\<lambda>y. f y = k) (rev xs))"
    by (simp only: sort_key_stable)
  also have "\<dots> = filter (\<lambda>y. f y = k) xs"
    by (simp add: rev_filter)
  finally show ?thesis .
qed

lemma sum_list_sorted_reverse: "sum_list (map g (sorted_reverse f xs)) = sum_list (map g xs)" for g :: "'a \<Rightarrow> real"
proof -
  have "mset (map g (sorted_reverse f xs)) = mset (map g xs)" by simp
  then show ?thesis by (metis sum_mset_sum_list)
qed

section \<open>Properties of the risk classification\<close>

lemma classificar_risco_mono:
  assumes "v1 \<le> v2" and "d1 \<le> d2"
  shows "risk_rank (classificar_risco_inadimplencia v1 d1)
           \<le> risk_rank (classificar_risco_inadimplencia v2 d2)"
  using assms by (simp add: classificar_risco_inadimplencia_def)

text \<open>
  Claim C5. The debtor risk classification is monotonically non-decreasing on the five-level
  ordinal scale in the debt value with the days late fixed, and in the days late with the value
  fixed; the level is decided by the listed thresholds with OR semantics: value at least 50000
  or at least 90 days gives MUITO_ALTO, else value at least 20000 or at least 60 days gives
  ALTO, else value at least 5000 or at least 30 days gives MEDIO, else value at least 1000 or
  at least 15 days gives BAIXO, else MUITO_BAIXO.
\<close>

theorem classificar_risco_monotone_or:
  "(v1 \<le> v2 \<longrightarrow> risk_rank (classificar_risco_inadimplencia v1 d)
                  \<le> risk_rank (classificar_risco_inadimplencia v2 d))
   \<and> (d1 \<le> d2 \<longrightarrow> risk_rank (classificar_risco_inadimplencia v d1)
                  \<le> risk_rank (classificar_risco_inadimplencia v d2))
   \<and> (classificar_risco_inadimplencia v d = MUITO_ALTO \<longleftrightarrow> v \<ge> 50000 \<or> d \<ge> 90)
   \<and> (classificar_risco_inadimplencia v d = ALTO \<longleftrightarrow>
        \<not> (v \<ge> 50000 \<or> d \<ge> 90) \<and> (v \<ge> 20000 \<or> d \<ge> 60))
   \<and> (classificar_risco_inadimplencia v d = MEDIO \<longleftrightarrow>
        \<not> (v \<ge> 20000 \<or> d \<ge> 60) \<and> (v \<ge> 5000 \<or> d \<ge> 30))
   \<and> (classificar_risco_inadimplencia v d = BAIXO \<longleftrightarrow>
        \<not> (v \<ge> 5000 \<or> d \<ge> 30) \<and> (v \<ge> 1000 \<or> d \<ge> 15))
   \<and> (classificar_risco_inadimplencia v d = MUITO_BAIXO \<longleftrightarrow> \<not> (v \<ge> 1000 \<or> d \<ge> 15))"
proof -
  have m1: "v1 \<le> v2 \<longrightarrow> risk_rank (classificar_risco_inadimplencia v1 d)
                  \<le> risk_rank (classificar_risco_inadimplencia v2 d)"
    using classificar_risco_mono [of v1 v2 d d] by simp
  have m2: "d1 \<le> d2 \<longrightarrow> risk_rank (classificar_risco_inadimplencia v d1)
                  \<le> risk_rank (classificar_risco_inadimplencia v d2)"
    using classificar_risco_mono [of v v d1 d2] by simp
  have tiers:
    "(classificar_risco_inadimplencia v d = MUITO_ALTO \<longleftrightarrow> v \<ge> 50000 \<or> d \<ge> 90)
   \<and> (classificar_risco_inadimplencia v d = ALTO \<longleftrightarrow>
        \<not> (v \<ge> 50000 \<or> d \<ge> 90) \<and> (v \<ge> 20000 \<or> d \<ge> 60))
   \<and> (classificar_risco_inadimplencia v d = MEDIO \<longleftrightarrow>
        \<not> (v \<ge> 20000 \<or> d \<ge> 60) \<and> (v \<ge> 5000 \<or> d \<ge> 30))
   \<and> (classificar_risco_inadimplencia v d = BAIXO \<longleftrightarrow>
        \<not> (v \<ge> 5000 \<or> d \<ge> 30) \<and> (v \<ge> 1000 \<or> d \<ge> 15))
   \<and> (classificar_risco_inadimplencia v d = MUITO_BAIXO \<longleftrightarrow> \<not> (v \<ge> 1000 \<or> d \<ge> 15))"
    by (simp add: classificar_risco_inadimplencia_def)
  from m1 m2 tiers show ?thesis by blast
qed

theorem classificar_risco_monotone_or_witness:
  "risk_rank (classificar_risco_inadimplencia 4000 10)
      \<le> risk_rank (classificar_risco_inadimplencia 25000 10)
   \<and> risk_rank (classificar_risco_inadimplencia 4000 10)
      \<le> risk_rank (classificar_risco_inadimplencia 4000 45)
   \<and> classificar_risco_inadimplencia 4000 10 = BAIXO
   \<and> classificar_risco_inadimplencia 25000 10 = ALTO
   \<and> classificar_risco_inadimplencia 4000 45 = MEDIO"
  using classificar_risco_monotone_or [of 4000 25000 10 10 45 4000]
    classificar_risco_monotone_or [of 4000 25000 10 10 45 25000]
    classificar_risco_monotone_or [of 4000 25000 45 10 45 4000]
  by simp

section \<open>Properties of the delinquency analyzer\<close>

lemma converter_inadimplente_default:
  assumes "converter_inadimplente inad = Inr obj" and "raw_dias_atraso inad = None"
  shows "dias_atraso obj = Some 60 \<and> (risco obj = Some ALTO \<or> risco obj = Some MUITO_ALTO)"
  using assms
  by (auto simp: converter_inadimplente_def Inadimplente_validado_def Let_def
        classificar_risco_inadimplencia_def split: if_splits)

lemma converter_inadimplentes_nth:
  "converter_inadimplentes inads = Inr objs \<Longrightarrow>
     length objs = length inads
     \<and> (\<forall>i < length inads. converter_inadimplente (inads ! i) = Inr (objs ! i))"
proof (induction inads arbitrary: objs)
  case Nil
  then show ?case by simp
next
  case (Cons inad rest)
  from Cons.prems obtain obj objs' where
    a: "converter_inadimplente inad = Inr obj" and
    b: "converter_inadimplentes rest = Inr objs'" and
    c: "objs = obj # objs'"
    by (auto split: sum.splits)
  from Cons.IH [OF b] a c show ?case
    by (auto simp: nth_Cons split: nat.splits)
qed

text \<open>
  Claim C9. When an input debtor has no days-late field, the conversion puts 60 days in its
  place before the risk is classified, so such a debtor is classified ALTO or MUITO_ALTO
  whatever its debt amount.
\<close>

theorem dias_atraso_default_high_risk:
  assumes "converter_inadimplentes inadimplentes = Inr objs"
    and "i < length inadimplentes"
    and "raw_dias_atraso (inadimplentes ! i) = None"
  shows "dias_atraso (objs ! i) = Some 60
         \<and> (risco (objs ! i) = Some ALTO \<or> risco (objs ! i) = Some MUITO_ALTO)"
proof -
  from converter_inadimplentes_nth [OF assms(1)] assms(2)
  have "converter_inadimplente (inadimplentes ! i) = Inr (objs ! i)" by simp
  then show ?thesis using assms(3) by (rule converter_inadimplente_default)
qed

lemma lower_JURIDICO: "lower ''JURIDICO'' = ''juridico''"
  by code_simp

theorem dias_atraso_default_high_risk_witness:
  "converter_inadimplentes ledger_sem_dias =
     Inr [\<lparr>nome = ''Loja A'', valor_divida = 1/100, status = CONFISSAO_DIVIDA,
           dias_atraso = Some 60, categoria = Some ''Nao informado'', observacoes = Some [],
           risco = Some ALTO\<rparr>,
          \<lparr>nome = ''Loja B'', valor_divida = 60000, status = JURIDICO,
           dias_atraso = Some 60, categoria = Some ''Nao informado'', observacoes = Some [],
           risco = Some MUITO_ALTO\<rparr>]
   \<and> (0::nat) < length ledger_sem_dias
   \<and> raw_dias_atraso (ledger_sem_dias ! 0) = None
   \<and> raw_valor_divida (ledger_sem_dias ! 0) = 1/100
   \<and> dias_atraso ([\<lparr>nome = ''Loja A'', valor_divida = 1/100, status = CONFISSAO_DIVIDA,
           dias_atraso = Some 60, categoria = Some ''Nao informado'', observacoes = Some [],
           risco = Some ALTO\<rparr>,
          \<lparr>nome = ''Loja B'', valor_divida = 60000, status = JURIDICO,
           dias_atraso = Some 60, categoria = Some ''Nao informado'', observacoes = Some [],
           risco = Some MUITO_ALTO\<rparr>] ! 0) = Some 60"
proof -
  have e: "converter_inadimplentes ledger_sem_dias =
     Inr [\<lparr>nome = ''Loja A'', valor_divida = 1/100, status = CONFISSAO_DIVIDA,
           dias_atraso = Some 60, categoria = Some ''Nao informado'', observacoes = Some [],
           risco = Some ALTO\<rparr>,
          \<lparr>nome = ''Loja B'', valor_divida = 60000, status = JURIDICO,
           dias_atraso = Some 60, categoria = Some ''Nao informado'', observacoes = Some [],
           risco = Some MUITO_ALTO\<rparr>]"
    by (simp add: ledger_sem_dias_def converter_inadimplente_def Inadimplente_validado_def
        classificar_risco_inadimplencia_def status_map_def lower_JURIDICO Let_def
        del: lower.simps)
  have l: "(0::nat) < length ledger_sem_dias" by (simp add: ledger_sem_dias_def)
  have n: "raw_dias_atraso (ledger_sem_dias ! 0) = None" by (simp add: ledger_sem_dias_def)
  have v: "raw_valor_divida (ledger_sem_dias ! 0) = 1/100" by (simp add: ledger_sem_dias_def)
  from dias_atraso_default_high_risk [OF e l n] e l n v show ?thesis by simp
qed
lemma sum_list_quantize_error:
  assumes "0 < q"
  shows "\<bar>sum_list (map (\<lambda>x. quantize (g x) q) xs) - sum_list (map g xs)\<bar>
           \<le> real (length xs) * (q / 2)"
proof (induction xs)
  case Nil
  then show ?case by simp
next
  case (Cons x xs)
  have h: "\<bar>quantize (g x) q - g x\<bar> \<le> q / 2" using assms by (rule quantize_error)
  have "sum_list (map (\<lambda>x. quantize (g x) q) (x # xs)) - sum_list (map g (x # xs))
          = (quantize (g x) q - g x)
            + (sum_list (map (\<lambda>x. quantize (g x) q) xs) - sum_list (map g xs))"
    by simp
  then have "\<bar>sum_list (map (\<lambda>x. quantize (g x) q) (x # xs)) - sum_list (map g (x # xs))\<bar>
          \<le> \<bar>quantize (g x) q - g x\<bar>
            + \<bar>sum_list (map (\<lambda>x. quantize (g x) q) xs) - sum_list (map g xs)\<bar>"
    by (simp only: abs_triangle_ineq)
  also have "\<dots> \<le> q / 2 + real (length xs) * (q / 2)"
    using h Cons.IH by (rule add_mono)
  also have "\<dots> = real (length (x # xs)) * (q / 2)"
    by (simp add: distrib_right)
  finally show ?case .
qed

lemma sum_list_pos_nonempty:
  "xs \<noteq> [] \<Longrightarrow> \<forall>x\<in>set xs. 0 < g x \<Longrightarrow> 0 < sum_list (map g xs)" for g :: "'a \<Rightarrow> real"
proof (induction xs)
  case Nil
  then show ?case by simp
next
  case (Cons x xs)
  show ?case
  proof (cases "xs = []")
    case True
    with Cons.prems show ?thesis by simp
  next
    case False
    with Cons have "0 < sum_list (map g xs)" and "0 < g x" by simp_all
    then show ?thesis by simp
  qed
qed

lemma map_enumerate_snd:
  "map (\<lambda>p. h (snd p)) (zip [1..<Suc (length xs)] xs) = map h xs"
proof -
  have "map (\<lambda>p. h (snd p)) (zip [1..<Suc (length xs)] xs)
          = map h (map snd (zip [1..<Suc (length xs)] xs))"
    by (simp add: comp_def)
  also have "map snd (zip [1..<Suc (length xs)] xs) = xs"
    by (rule map_snd_zip) (simp del: upt_Suc)
  finally show ?thesis .
qed

text \<open>
  Claim C8. For a non-empty ledger of debtors with positive debts the ranking lists the
  debtors by descending debt, the share of each entry is its debt divided by the sum of all
  debts, times 100, quantized to one decimal place, and the shares add up to 100 within
  0.05 per entry, the rounding of the quantization.
\<close>

theorem ranking_shares_sum_to_100:
  assumes "inadimplentes \<noteq> []"
    and "\<forall>x\<in>set inadimplentes. 0 < valor_divida x"
  shows "\<exists>ranking. gerar_ranking_por_valor inadimplentes = Inr ranking
     \<and> map rk_nome ranking = map nome (sorted_reverse valor_divida inadimplentes)
     \<and> map rk_valor_divida ranking = map valor_divida (sorted_reverse valor_divida inadimplentes)
     \<and> (\<forall>e\<in>set ranking. rk_participacao_percentual e
           = quantize (rk_valor_divida e / sum_list (map valor_divida inadimplentes) * 100) (1/10))
     \<and> \<bar>sum_list (map rk_participacao_percentual ranking) - 100\<bar>
           \<le> real (length inadimplentes) * (1/20)"
proof -
  define soma where "soma = sum_list (map valor_divida inadimplentes)"
  define ord where "ord = sorted_reverse valor_divida inadimplentes"
  define item where "item = (\<lambda>(i, inad).
                 \<lparr>rk_posicao = i, rk_nome = nome inad, rk_valor_divida = valor_divida inad,
                  rk_participacao_percentual = quantize (valor_divida inad / soma * 100) (1/10),
                  rk_status = status inad, rk_risco = risco inad, rk_categoria = categoria inad,
                  rk_recomendacao_acao = recomendar_acao_individual inad,
                  rk_prioridade_cobranca =
                    calcular_prioridade_cobranca inad i (length inadimplentes)\<rparr>)"
  define ranking where "ranking = map item (zip [1..<Suc (length inadimplentes)] ord)"
  have pos: "0 < soma" unfolding soma_def using assms by (rule sum_list_pos_nonempty)
  have len: "length ord = length inadimplentes" by (simp add: ord_def)
  have res: "gerar_ranking_por_valor inadimplentes = Inr ranking"
    using pos by (simp add: gerar_ranking_por_valor_def Let_def ranking_def item_def
        soma_def ord_def del: upt_Suc)
  have proj: "map (\<lambda>p. h (snd p)) (zip [1..<Suc (length inadimplentes)] ord) = map h ord" for h :: "Inadimplente \<Rightarrow> 'b"
    using map_enumerate_snd [of h ord] by (simp add: len)
  have nomes: "map rk_nome ranking = map nome ord"
    using proj [of nome] by (simp add: ranking_def item_def case_prod_beta comp_def del: upt_Suc)
  have valores: "map rk_valor_divida ranking = map valor_divida ord"
    using proj [of valor_divida]
    by (simp add: ranking_def item_def case_prod_beta comp_def del: upt_Suc)
  have parts: "map rk_participacao_percentual ranking
                 = map (\<lambda>inad. quantize (valor_divida inad / soma * 100) (1/10)) ord"
    using proj [of "\<lambda>inad. quantize (valor_divida inad / soma * 100) (1/10)"]
    by (simp add: ranking_def item_def case_prod_beta comp_def del: upt_Suc)
  have each: "\<forall>e\<in>set ranking. rk_participacao_percentual e
           = quantize (rk_valor_divida e / soma * 100) (1/10)"
    by (auto simp: ranking_def item_def simp del: upt_Suc)
  have "sum_list (map (\<lambda>inad. valor_divida inad / soma * 100) ord)
          = sum_list (map (\<lambda>inad. valor_divida inad * (100 / soma)) ord)"
    by simp
  also have "\<dots> = sum_list (map valor_divida ord) * (100 / soma)"
    by (rule sum_list_mult_const)
  also have "sum_list (map valor_divida ord) = soma"
    unfolding ord_def soma_def by (rule sum_list_sorted_reverse)
  finally have exact: "sum_list (map (\<lambda>inad. valor_divida inad / soma * 100) ord) = 100"
    using pos by simp
  have "\<bar>sum_list (map (\<lambda>inad. quantize (valor_divida inad / soma * 100) (1/10)) ord)
          - sum_list (map (\<lambda>inad. valor_divida inad / soma * 100) ord)\<bar>
          \<le> real (length ord) * ((1/10) / 2)"
    by (rule sum_list_quantize_error) simp
  then have "\<bar>sum_list (map rk_participacao_percentual ranking) - 100\<bar>
           \<le> real (length inadimplentes) * ((1/10) / 2)"
    by (simp only: parts exact len)
  then have total: "\<bar>sum_list (map rk_participacao_percentual ranking) - 100\<bar>
           \<le> real (length inadimplentes) * (1/20)"
    by simp
  from res nomes valores each total show ?thesis
    unfolding soma_def ord_def by blast
qed

theorem ranking_shares_sum_to_100_witness:
  "ledger_cenario \<noteq> [] \<and> list_all (\<lambda>x. 0 < valor_divida x) ledger_cenario
   \<and> (\<exists>ranking. gerar_ranking_por_valor ledger_cenario = Inr ranking
         \<and> map rk_nome ranking = [''A'', ''B'', ''C'', ''D'']
         \<and> \<bar>sum_list (map rk_participacao_percentual ranking) - 100\<bar> \<le> 4 * (1/20))"
proof -
  have n: "ledger_cenario \<noteq> []" by (simp add: ledger_cenario_def)
  have p: "\<forall>x\<in>set ledger_cenario. 0 < valor_divida x" by (simp add: ledger_cenario_def)
  have o: "map nome (sorted_reverse valor_divida ledger_cenario) = [''A'', ''B'', ''C'', ''D'']"
    by (simp add: sorted_reverse_def ledger_cenario_def)
  have l: "real (length ledger_cenario) = 4" by (simp add: ledger_cenario_def)
  from ranking_shares_sum_to_100 [OF n p, unfolded o l]
  obtain ranking where r: "gerar_ranking_por_valor ledger_cenario = Inr ranking
     \<and> map rk_nome ranking = [''A'', ''B'', ''C'', ''D'']
     \<and> map rk_valor_divida ranking = map valor_divida (sorted_reverse valor_divida ledger_cenario)
     \<and> (\<forall>e\<in>set ranking. rk_participacao_percentual e
           = quantize (rk_valor_divida e / sum_list (map valor_divida ledger_cenario) * 100) (1/10))
     \<and> \<bar>sum_list (map rk_participacao_percentual ranking) - 100\<bar> \<le> 4 * (1/20)" ..
  then have "gerar_ranking_por_valor ledger_cenario = Inr ranking
         \<and> map rk_nome ranking = [''A'', ''B'', ''C'', ''D'']
         \<and> \<bar>sum_list (map rk_participacao_percentual ranking) - 100\<bar> \<le> 4 * (1/20)"
    by simp
  then have "\<exists>ranking. gerar_ranking_por_valor ledger_cenario = Inr ranking
         \<and> map rk_nome ranking = [''A'', ''B'', ''C'', ''D'']
         \<and> \<bar>sum_list (map rk_participacao_percentual ranking) - 100\<bar> \<le> 4 * (1/20)" ..
  moreover have "list_all (\<lambda>x. 0 < valor_divida x) ledger_cenario"
    by (simp add: ledger_cenario_def)
  ultimately show ?thesis using n by simp
qed

lemma converter_ledger_concentrado:
  "converter_inadimplentes ledger_concentrado = Inr
     [\<lparr>nome = ''Loja A'', valor_divida = 1, status = CONFISSAO_DIVIDA,
           dias_atraso = Some 10, categoria = Some ''Nao informado'', observacoes = Some [],
           risco = Some MUITO_BAIXO\<rparr>,
      \<lparr>nome = ''Loja B'', valor_divida = 1000000, status = CONFISSAO_DIVIDA,
           dias_atraso = Some 10, categoria = Some ''Nao informado'', observacoes = Some [],
           risco = Some MUITO_ALTO\<rparr>,
      \<lparr>nome = ''Loja C'', valor_divida = 1, status = CONFISSAO_DIVIDA,
           dias_atraso = Some 10, categoria = Some ''Nao informado'', observacoes = Some [],
           risco = Some MUITO_BAIXO\<rparr>]"
  by (simp add: ledger_concentrado_def converter_inadimplente_def Inadimplente_validado_def
      classificar_risco_inadimplencia_def Let_def)

text \<open>The float operations of the index on the debts 1000000, 1 and 1: the quotient
  \<open>2000010 / 3000006\<close>, the quotient \<open>4 / 3\<close> and their difference, about -0.6666647.\<close>

lemma gini_quociente: "fdiv 2000010 3000006 = 3002408758761571/4503599627370496"
  by (simp add: fdiv_def float_of_eqI [of "-1"] pow2_def round_half_even_def)

lemma float_of_four_thirds: "float_of (4/3) = 6004799503160661/4503599627370496"
  by (simp add: float_of_eqI [of 0] pow2_def round_half_even_def)

lemma gini_diferenca:
  "fsub (3002408758761571/4503599627370496) (6004799503160661/4503599627370496)
     = - (1501195372199545/2251799813685248)"
  by (simp add: fsub_def float_of_eqI [of "-1"] pow2_def round_half_even_def)

lemma gini_concentrado:
  assumes "py_sum L [1000000, 2, 3] = 1000005" and "py_sum L [1000000, 1, 1] = 1000002"
  shows "calcular_indice_gini L
     [\<lparr>nome = ''Loja B'', valor_divida = 1000000, status = CONFISSAO_DIVIDA,
           dias_atraso = Some 10, categoria = Some ''Nao informado'', observacoes = Some [],
           risco = Some MUITO_ALTO\<rparr>,
      \<lparr>nome = ''Loja A'', valor_divida = 1, status = CONFISSAO_DIVIDA,
           dias_atraso = Some 10, categoria = Some ''Nao informado'', observacoes = Some [],
           risco = Some MUITO_BAIXO\<rparr>,
      \<lparr>nome = ''Loja C'', valor_divida = 1, status = CONFISSAO_DIVIDA,
           dias_atraso = Some 10, categoria = Some ''Nao informado'', observacoes = Some [],
           risco = Some MUITO_BAIXO\<rparr>]
     = Inr (quantize (py_str L (- (1501195372199545/2251799813685248))) (1/1000))"
  by (simp add: calcular_indice_gini_def Let_def assms fmul_def gini_quociente
      float_of_four_thirds gini_diferenca)

lemma quantize_gini:
  assumes "\<bar>y - (- (1501195372199545/2251799813685248))\<bar>
             \<le> \<bar>- (1501195372199545/2251799813685248)\<bar> / 10 ^ 15"
  shows "quantize y (1/1000) = - (667/1000)"
proof -
  from assms have "\<bar>y + 1501195372199545/2251799813685248\<bar> \<le> 1 / 1000000000000000"
    by simp
  then have "y + 1501195372199545/2251799813685248 \<le> 1 / 1000000000000000"
    and "- (y + 1501195372199545/2251799813685248) \<le> 1 / 1000000000000000"
    unfolding abs_le_iff by blast+
  then have "- (6675/10000) < y" and "y < - (6665/10000)" by simp_all
  then have "round_half_even (y / (1/1000)) = - 667"
    by (intro round_half_even_eqI) simp_all
  then show ?thesis by (simp add: quantize_def)
qed

text \<open>
  Claim C1. On the ledger of three debtors with debts 1, 1000000 and 1, where one debtor
  holds nearly the whole total, the analysis succeeds and the concentration index it reports
  is -0.667, whenever the library sums the floats 1000000, 2, 3 and 1000000, 1, 1 to their
  exact sums and prints a float to within one part in \<open>10\<^sup>1\<^sup>5\<close>. The ranks 1..n are paired with
  the debts in descending order, so the index is the negative of the Gini value
  (n - 1) / n = 0.667 that the claim states for this ledger.
\<close>

theorem gini_ledger_concentrado:
  assumes "py_sum L [1000000, 2, 3] = 1000005" and "py_sum L [1000000, 1, 1] = 1000002"
    and "\<forall>v. \<bar>py_str L v - v\<bar> \<le> \<bar>v\<bar> / 10 ^ 15"
  shows "map_sum id (indice_concentracao \<circ> concentracao_dividas)
     (DelinquencyAnalyzer_analisar L ledger_concentrado) = Inr (- (667/1000))"
proof -
  have ne: "ledger_concentrado \<noteq> []" by (simp add: ledger_concentrado_def)
  have q: "quantize (py_str L (- (1501195372199545/2251799813685248))) (1/1000) = - (667/1000)"
    using assms(3) by (intro quantize_gini) blast
  show ?thesis
    using ne
    by (simp add: DelinquencyAnalyzer_analisar_def converter_ledger_concentrado
        gerar_ranking_por_valor_def analisar_concentracao_dividas_def sorted_reverse_def
        Let_def gini_concentrado [OF assms(1,2)] q)
qed

theorem gini_ledger_concentrado_witness:
  "map_sum id (indice_concentracao \<circ> concentracao_dividas)
     (DelinquencyAnalyzer_analisar pylib_ref ledger_concentrado) = Inr (- (667/1000))"
  using gini_ledger_concentrado [of pylib_ref] by (simp add: pylib_ref_def fadd_def)

text \<open>On the ledger of three debtors who owe 5000 each the index is 0.\<close>

lemma gini_ledger_igual:
  assumes "py_sum L [5000, 10000, 15000] = 30000" and "py_sum L [5000, 5000, 5000] = 15000"
    and "py_str L 0 = 0"
  shows "calcular_indice_gini L (sorted_reverse valor_divida ledger_igual) = Inr 0"
  by (simp add: calcular_indice_gini_def Let_def ledger_igual_def sorted_reverse_def assms
      fmul_def fdiv_def fsub_def float_of_four_thirds)

section \<open>Properties of the insight engine\<close>

text \<open>
  Claim C6. The list returned by the prioritisation is a rearrangement of the generated
  insights in which the priority rank never increases along the list and, among insights of
  equal priority, the estimated impact converted to a float never increases; insights with
  the same key keep the order in which they were generated (the sort is stable).
\<close>

theorem priorizar_insights_ordered_stable:
  "mset (priorizar_insights insights) = mset insights
   \<and> sorted_wrt (\<lambda>a b. ordem_prioridade (prioridade b) \<le> ordem_prioridade (prioridade a)
                     \<and> (ordem_prioridade (prioridade a) = ordem_prioridade (prioridade b)
                          \<longrightarrow> float_of (impacto b) \<le> float_of (impacto a)))
        (priorizar_insights insights)
   \<and> (\<forall>k. filter (\<lambda>x. chave_prioridade x = k) (priorizar_insights insights)
            = filter (\<lambda>x. chave_prioridade x = k) insights)"
proof -
  have "sorted_wrt (\<lambda>a b. chave_prioridade b \<le> chave_prioridade a) (priorizar_insights insights)"
    unfolding priorizar_insights_def by (rule sorted_reverse_descending)
  then have "sorted_wrt (\<lambda>a b. ordem_prioridade (prioridade b) \<le> ordem_prioridade (prioridade a)
                     \<and> (ordem_prioridade (prioridade a) = ordem_prioridade (prioridade b)
                          \<longrightarrow> float_of (impacto b) \<le> float_of (impacto a)))
        (priorizar_insights insights)"
    by (rule sorted_wrt_mono_rel [rotated]) (auto simp: chave_prioridade_def less_eq_prod_def)
  then show ?thesis
    by (simp add: priorizar_insights_def sorted_reverse_stable)
qed

theorem priorizar_insights_ordered_stable_witness:
  "priorizar_insights [insight_a, insight_b, insight_c, insight_d]
         = [insight_b, insight_c, insight_a, insight_d]
   \<and> sorted_wrt (\<lambda>a b. ordem_prioridade (prioridade b) \<le> ordem_prioridade (prioridade a)
                     \<and> (ordem_prioridade (prioridade a) = ordem_prioridade (prioridade b)
                          \<longrightarrow> float_of (impacto b) \<le> float_of (impacto a)))
        [insight_b, insight_c, insight_a, insight_d]
   \<and> filter (\<lambda>x. chave_prioridade x = (3, 500)) [insight_b, insight_c, insight_a, insight_d]
        = [insight_a, insight_d]"
proof -
  have e: "priorizar_insights [insight_a, insight_b, insight_c, insight_d]
         = [insight_b, insight_c, insight_a, insight_d]"
    by (simp add: priorizar_insights_def sorted_reverse_def chave_prioridade_def impacto_def
      insight_a_def insight_b_def insight_c_def insight_d_def less_eq_prod_def)
  have f: "filter (\<lambda>x. chave_prioridade x = (3, 500)) [insight_a, insight_b, insight_c, insight_d]
        = [insight_a, insight_d]"
    by (simp add: chave_prioridade_def impacto_def
      insight_a_def insight_b_def insight_c_def insight_d_def)
  note t = priorizar_insights_ordered_stable [of "[insight_a, insight_b, insight_c, insight_d]",
      unfolded e]
  from t have s: "sorted_wrt (\<lambda>a b. ordem_prioridade (prioridade b) \<le> ordem_prioridade (prioridade a)
                     \<and> (ordem_prioridade (prioridade a) = ordem_prioridade (prioridade b)
                          \<longrightarrow> float_of (impacto b) \<le> float_of (impacto a)))
        [insight_b, insight_c, insight_a, insight_d]" by (rule conjunct1 [OF conjunct2])
  from t have "\<forall>k. filter (\<lambda>x. chave_prioridade x = k) [insight_b, insight_c, insight_a, insight_d]
            = filter (\<lambda>x. chave_prioridade x = k) [insight_a, insight_b, insight_c, insight_d]"
    by (rule conjunct2 [OF conjunct2])
  then have "filter (\<lambda>x. chave_prioridade x = (3, 500)) [insight_b, insight_c, insight_a, insight_d]
            = filter (\<lambda>x. chave_prioridade x = (3, 500)) [insight_a, insight_b, insight_c, insight_d]"
    by (rule spec)
  with f have g: "filter (\<lambda>x. chave_prioridade x = (3, 500)) [insight_b, insight_c, insight_a, insight_d]
        = [insight_a, insight_d]" by (rule trans [rotated])
  from e s g show ?thesis by (intro conjI)
qed

text \<open>The impacts 0.1 and 0.10000000000000000001 are the same float, so the two insights
  have the same key. Given in this order they are returned in this order: two insights of
  equal priority, the second with the greater impact.\<close>

lemma chave_insight_x:
  "chave_prioridade insight_x = (3, 3602879701896397/36028797018963968)"
  by (simp add: chave_prioridade_def impacto_def insight_x_def float_of_tenth)

lemma chave_insight_y:
  "chave_prioridade insight_y = (3, 3602879701896397/36028797018963968)"
  using float_of_tenth_plus
  by (simp add: chave_prioridade_def impacto_def insight_y_def)

theorem priorizar_insights_impact_counterexample:
  "priorizar_insights [insight_x, insight_y] = [insight_x, insight_y]
   \<and> prioridade insight_x = prioridade insight_y
   \<and> impacto insight_x < impacto insight_y"
proof -
  have "priorizar_insights [insight_x, insight_y] = [insight_x, insight_y]"
    by (simp add: priorizar_insights_def sorted_reverse_def chave_insight_x chave_insight_y)
  moreover have "prioridade insight_x = prioridade insight_y"
    by (simp add: insight_x_def insight_y_def)
  moreover have "impacto insight_x < impacto insight_y"
    by (simp add: impacto_def insight_x_def insight_y_def)
  ultimately show ?thesis by (intro conjI)
qed

section \<open>Properties of the cash-flow statistics\<close>

lemma stdev_tres: "stdev [- 1, 0, 1] = 1"
  by (simp add: stdev_def mean_def)

lemma pop_tres: "populationStdDev (map saldo_operacional movs_tres) = sqrt (2/3)"
  by (simp add: populationStdDev_def mean_def movs_tres_def)

lemma vol_tres: "calcular_volatilidade_saldos pylib_ref movs_tres = 1"
  by (simp add: calcular_volatilidade_saldos_def Let_def movs_tres_def pylib_ref_def
      stdev_tres quantize_def)

lemma sqrt23: "sqrt (2/3) \<le> 9/10"
  by (rule real_le_lsqrt) (simp_all add: power2_eq_square)

lemma stdev_population:
  assumes "2 \<le> length xs"
  shows "stdev xs = sqrt (real (length xs) / (real (length xs) - 1)) * populationStdDev xs"
proof -
  define n where "n = real (length xs)"
  define ss where "ss = (\<Sum>x\<leftarrow>xs. (x - mean xs)\<^sup>2)"
  have n: "2 \<le> n" using assms by (simp add: n_def)
  have "sqrt (n / (n - 1)) * sqrt (ss / n) = sqrt (n / (n - 1) * (ss / n))"
    by (simp only: real_sqrt_mult)
  also have "n / (n - 1) * (ss / n) = ss / (n - 1)" using n by simp
  finally show ?thesis using assms
    by (simp add: stdev_def populationStdDev_def n_def ss_def)
qed

text \<open>
  Claim C2, as amended. The volatility of the monthly summary is 0 for fewer than two
  movements. Otherwise it is what \<open>statistics.stdev\<close> returns for the operating balances
  converted to floats, printed and quantized to two decimal places; and when that printed
  number is within \<open>eps\<close> of the sample standard deviation of the float balances, the square
  root of the sum of squared deviations from the mean divided by n - 1, the volatility is
  within \<open>eps + 0.005\<close> of it. The sample standard deviation is the population standard
  deviation of the specification multiplied by the square root of n / (n - 1).
\<close>

theorem volatilidade_sample_stdev:
  "(length movimentacoes < 2 \<longrightarrow> calcular_volatilidade_saldos L movimentacoes = 0)
   \<and> (2 \<le> length movimentacoes \<longrightarrow>
        calcular_volatilidade_saldos L movimentacoes
          = quantize (py_str L (py_stdev L (map (\<lambda>mov. float_of (saldo_operacional mov))
                                                movimentacoes))) (1/100))
   \<and> (2 \<le> length movimentacoes
        \<and> \<bar>py_str L (py_stdev L (map (\<lambda>mov. float_of (saldo_operacional mov)) movimentacoes))
             - sqrt ((\<Sum>x\<leftarrow>map (\<lambda>mov. float_of (saldo_operacional mov)) movimentacoes.
                        (x - mean (map (\<lambda>mov. float_of (saldo_operacional mov)) movimentacoes))\<^sup>2)
                     / (real (length movimentacoes) - 1))\<bar> \<le> eps
       \<longrightarrow> \<bar>calcular_volatilidade_saldos L movimentacoes
             - sqrt ((\<Sum>x\<leftarrow>map (\<lambda>mov. float_of (saldo_operacional mov)) movimentacoes.
                        (x - mean (map (\<lambda>mov. float_of (saldo_operacional mov)) movimentacoes))\<^sup>2)
                     / (real (length movimentacoes) - 1))\<bar> \<le> eps + 1/200
         \<and> sqrt ((\<Sum>x\<leftarrow>map (\<lambda>mov. float_of (saldo_operacional mov)) movimentacoes.
                        (x - mean (map (\<lambda>mov. float_of (saldo_operacional mov)) movimentacoes))\<^sup>2)
                     / (real (length movimentacoes) - 1))
             = sqrt (real (length movimentacoes) / (real (length movimentacoes) - 1))
                 * populationStdDev (map (\<lambda>mov. float_of (saldo_operacional mov))
                                         movimentacoes))"
proof -
  define saldos where "saldos = map (\<lambda>mov. float_of (saldo_operacional mov)) movimentacoes"
  define p where "p = py_str L (py_stdev L saldos)"
  have len: "length saldos = length movimentacoes" by (simp add: saldos_def)
  have s: "sqrt ((\<Sum>x\<leftarrow>saldos. (x - mean saldos)\<^sup>2) / (real (length movimentacoes) - 1))
             = stdev saldos"
    by (simp add: stdev_def len)
  have a: "length movimentacoes < 2 \<longrightarrow> calcular_volatilidade_saldos L movimentacoes = 0"
    by (simp add: calcular_volatilidade_saldos_def)
  have b: "2 \<le> length movimentacoes \<longrightarrow>
             calcular_volatilidade_saldos L movimentacoes = quantize p (1/100)"
    by (simp add: calcular_volatilidade_saldos_def Let_def p_def saldos_def)
  have c: "\<bar>calcular_volatilidade_saldos L movimentacoes - stdev saldos\<bar> \<le> eps + 1/200
           \<and> stdev saldos = sqrt (real (length movimentacoes) / (real (length movimentacoes) - 1))
                              * populationStdDev saldos"
    if l: "2 \<le> length movimentacoes" and e: "\<bar>p - stdev saldos\<bar> \<le> eps"
  proof
    have "\<bar>quantize p (1/100) - p\<bar> \<le> 1/200" using quantize_error [of "1/100" p] by simp
    with e have "\<bar>quantize p (1/100) - stdev saldos\<bar> \<le> eps + 1/200" by arith
    with b l show "\<bar>calcular_volatilidade_saldos L movimentacoes - stdev saldos\<bar> \<le> eps + 1/200"
      by simp
    from l have "2 \<le> length saldos" by (simp add: len)
    from stdev_population [OF this]
    show "stdev saldos = sqrt (real (length movimentacoes) / (real (length movimentacoes) - 1))
                              * populationStdDev saldos"
      by (simp add: len)
  qed
  from a b c show ?thesis
    unfolding s saldos_def [symmetric] p_def [symmetric] by blast
qed

theorem volatilidade_sample_stdev_witness:
  "2 \<le> length movs_tres
   \<and> calcular_volatilidade_saldos pylib_ref movs_tres = 1
   \<and> \<bar>calcular_volatilidade_saldos pylib_ref movs_tres
         - sqrt ((\<Sum>x\<leftarrow>map (\<lambda>mov. float_of (saldo_operacional mov)) movs_tres.
                    (x - mean (map (\<lambda>mov. float_of (saldo_operacional mov)) movs_tres))\<^sup>2)
                 / (real (length movs_tres) - 1))\<bar> \<le> 0 + 1/200"
proof -
  have l: "2 \<le> length movs_tres" by (simp add: movs_tres_def)
  have m: "map (\<lambda>mov. float_of (saldo_operacional mov)) movs_tres = [- 1, 0, 1]"
    by (simp add: movs_tres_def)
  have n: "real (length movs_tres) - 1 = 2" by (simp add: movs_tres_def)
  have f: "sqrt ((\<Sum>x\<leftarrow>[- 1, 0, 1]. (x - mean [- 1, 0, 1])\<^sup>2) / 2) = (1::real)"
    by (simp add: mean_def)
  have e: "\<bar>py_str pylib_ref (py_stdev pylib_ref [- 1, 0, 1]) - 1\<bar> \<le> (0::real)"
    by (simp add: pylib_ref_def stdev_tres)
  from volatilidade_sample_stdev [of movs_tres pylib_ref 0] l e
  have "\<bar>calcular_volatilidade_saldos pylib_ref movs_tres - 1\<bar> \<le> 0 + 1/200"
    unfolding m n f by blast
  with l vol_tres show ?thesis unfolding m n f by simp
qed

text \<open>For the balances -1, 0 and 1 the reported volatility is 1, while the population
  standard deviation is the square root of 2/3, below 0.9.\<close>

theorem volatilidade_population_counterexample:
  "2 \<le> length movs_tres
   \<and> calcular_volatilidade_saldos pylib_ref movs_tres
        \<noteq> populationStdDev (map saldo_operacional movs_tres)
   \<and> calcular_volatilidade_saldos pylib_ref movs_tres
        \<noteq> quantize (populationStdDev (map saldo_operacional movs_tres)) (1/100)"
proof -
  have l: "2 \<le> length movs_tres" by (simp add: movs_tres_def)
  have p: "populationStdDev (map saldo_operacional movs_tres) \<le> 9/10"
    using sqrt23 by (simp add: pop_tres)
  then have "populationStdDev (map saldo_operacional movs_tres) \<le> of_int 90 * (1/100)" by simp
  then have "quantize (populationStdDev (map saldo_operacional movs_tres)) (1/100)
               \<le> of_int 90 * (1/100)"
    by (rule quantize_le [rotated]) simp
  with p l show ?thesis by (simp add: vol_tres)
qed

text \<open>The balances 100, 100, 100 and 100.01: the float nearest to 100.01 lies above it, the
  sample standard deviation of the four floats is a float a little above 0.005, and the
  volatility reported is 0.01.\<close>

lemma float_of_100_01: "float_of (10001/100) = 7037578105208177/70368744177664"
  by (simp add: float_of_eqI [of 6] pow2_def round_half_even_def)

lemma stdev_centavo:
  "stdev [100, 100, 100, 7037578105208177/70368744177664] = 703687441777/140737488355328"
proof -
  have "(\<Sum>x\<leftarrow>[100, 100, 100, 7037578105208177/70368744177664].
            (x - mean [100, 100, 100, 7037578105208177/70368744177664])\<^sup>2) / (4 - 1)
          = (703687441777/140737488355328 :: real)\<^sup>2"
    by (simp add: mean_def power2_eq_square)
  then show ?thesis by (simp add: stdev_def)
qed

lemma float_of_stdev_centavo:
  "float_of (703687441777/140737488355328) = 703687441777/140737488355328"
  using float_of_dyadic [of 703687441777 "- 47"] by (simp add: pow2_def)

lemma vol_centavo:
  assumes "py_stdev L [100, 100, 100, 7037578105208177/70368744177664]
             = 703687441777/140737488355328"
    and "\<forall>v. \<bar>py_str L v - v\<bar> \<le> \<bar>v\<bar> / 10 ^ 15"
  shows "calcular_volatilidade_saldos L movs_centavo = 1/100"
proof -
  define y where "y = py_str L (703687441777/140737488355328)"
  from assms(2) have "\<bar>y - 703687441777/140737488355328\<bar>
                        \<le> \<bar>703687441777/140737488355328\<bar> / 10 ^ 15"
    unfolding y_def by blast
  moreover have "\<bar>703687441777/140737488355328\<bar> / 10 ^ 15 \<le> (1 / 100000000000000000 :: real)"
    by simp
  ultimately have "\<bar>y - 703687441777/140737488355328\<bar> \<le> 1 / 100000000000000000"
    by (rule order_trans)
  then have "y - 703687441777/140737488355328 \<le> 1 / 100000000000000000"
    and "- (y - 703687441777/140737488355328) \<le> 1 / 100000000000000000"
    unfolding abs_le_iff by blast+
  then have "1/200 < y" and "y < 1/100" by simp_all
  then have "round_half_even (y / (1/100)) = 1"
    by (intro round_half_even_eqI) simp_all
  then have "quantize y (1/100) = 1/100" by (simp add: quantize_def)
  then show ?thesis
    by (simp add: calcular_volatilidade_saldos_def Let_def movs_centavo_def float_of_100_01
        assms(1) y_def)
qed

lemma vol_centavo_ref: "calcular_volatilidade_saldos pylib_ref movs_centavo = 1/100"
  by (rule vol_centavo) (simp_all add: pylib_ref_def stdev_centavo float_of_stdev_centavo)

section \<open>Properties of the cash-flow trends\<close>

lemma py_sum_ref: "py_sum pylib_ref xs = foldl fadd 0 xs"
  by (simp add: pylib_ref_def)

lemma py_stdev_ref: "py_stdev pylib_ref xs = float_of (stdev xs)"
  by (simp add: pylib_ref_def)

lemma py_str_ref: "py_str pylib_ref v = v"
  by (simp add: pylib_ref_def)

lemma stdev_nonneg: "0 \<le> stdev xs"
proof (cases "1 < length xs")
  case True
  then have "0 < real (length xs) - 1" by simp
  moreover have "0 \<le> (\<Sum>x\<leftarrow>xs. (x - mean xs)\<^sup>2)" by (rule sum_list_nonneg) auto
  ultimately show ?thesis by (simp add: stdev_def)
next
  case False
  then have "xs = [] \<or> (\<exists>a. xs = [a])" by (cases xs) auto
  then show ?thesis by (auto simp: stdev_def mean_def)
qed

lemma pylib_ref_ok: "pylib_ok pylib_ref"
  by (simp add: pylib_ok_def pylib_ref_def float_of_nonneg stdev_nonneg)

lemma quantize_20: "quantize 20 (1/10) = 20"
  by (simp add: quantize_def)

lemma slope_234: "slope_regressao pylib_ref [2, 3, 4] = 1"
  by (simp add: slope_regressao_def Let_def power2_eq_square py_sum_ref
      fadd_def fmul_def fsub_def fdiv_def)

lemma stdev_234: "stdev [2, 3, 4] = 1"
  by (simp add: stdev_def mean_def)

lemma tendencia_234:
  "calcular_tendencia_metrica pylib_ref [2, 3, 4] nome_metrica =
     Inr \<lparr>metrica = nome_metrica, direcao = CRESCIMENTO, intensidade = 100,
          periodo_analise = 3, pontos_criticos = [], confiabilidade = 75\<rparr>"
  by (simp add: calcular_tendencia_metrica_def slope_234 stdev_234 py_stdev_ref py_str_ref
      Let_def float_of_tenth fmul_def fdiv_def TendenciaFinanceira_validada_def quantize_def)

lemma slope_55: "slope_regressao pylib_ref [5, 5] = 0"
  by (simp add: slope_regressao_def Let_def power2_eq_square py_sum_ref
      fadd_def fmul_def fsub_def fdiv_def)

lemma stdev_55: "stdev [5, 5] = 0"
  by (simp add: stdev_def mean_def)

lemma tendencia_55:
  "calcular_tendencia_metrica pylib_ref [5, 5] nome_metrica =
     Inr \<lparr>metrica = nome_metrica, direcao = ESTAVEL, intensidade = 20,
          periodo_analise = 2, pontos_criticos = [], confiabilidade = 100\<rparr>"
  by (simp add: calcular_tendencia_metrica_def slope_55 stdev_55 py_stdev_ref py_str_ref
      Let_def float_of_tenth fmul_def fdiv_def TendenciaFinanceira_validada_def quantize_def)

lemma slope_neg: "slope_regressao pylib_ref [- 3, - 2, - 1] = 1"
  by (simp add: slope_regressao_def Let_def power2_eq_square py_sum_ref
      fadd_def fmul_def fsub_def fdiv_def)

lemma stdev_neg: "stdev [- 3, - 2, - 1] = 1"
  by (simp add: stdev_def mean_def)

lemma tendencia_neg:
  "calcular_tendencia_metrica pylib_ref [- 3, - 2, - 1] nome_metrica =
     Inl (ValidationError ''Valores devem estar entre 0 e 100'')"
  by (simp add: calcular_tendencia_metrica_def slope_neg stdev_neg py_stdev_ref py_str_ref
      Let_def float_of_tenth fmul_def fdiv_def TendenciaFinanceira_validada_def quantize_def)

lemma tendencia_casos:
  assumes "calcular_tendencia_metrica L valores nome_metrica = Inr t"
  shows "(direcao t = ESTAVEL \<longleftrightarrow>
            \<bar>slope_regressao L (map float_of valores)\<bar> < float_of (1/10))
     \<and> (direcao t = CRESCIMENTO \<longleftrightarrow>
            \<not> \<bar>slope_regressao L (map float_of valores)\<bar> < float_of (1/10)
            \<and> 0 < slope_regressao L (map float_of valores))
     \<and> (direcao t = DECLINIO \<longleftrightarrow>
            \<not> \<bar>slope_regressao L (map float_of valores)\<bar> < float_of (1/10)
            \<and> \<not> 0 < slope_regressao L (map float_of valores))
     \<and> intensidade t =
          (if \<bar>slope_regressao L (map float_of valores)\<bar> < float_of (1/10) then 20
           else quantize (min 100 (py_str L \<bar>fmul (slope_regressao L (map float_of valores))
                                                   100\<bar>)) (1/10))"
  using assms
  by (auto simp: calcular_tendencia_metrica_def Let_def TendenciaFinanceira_validada_def
        quantize_20 split: if_splits)

lemma quantize_ge_50: "50 \<le> z \<Longrightarrow> 50 \<le> quantize z (1/10)"
proof -
  assume "50 \<le> z"
  then have "of_int 500 * (1/10) \<le> z" by simp
  then have "of_int 500 * (1/10) \<le> quantize z (1/10)"
    by (rule quantize_ge [rotated]) simp
  then show ?thesis by simp
qed

lemma tendencia_conf_ge_50:
  assumes "calcular_tendencia_metrica L valores nome_metrica = Inr t"
  shows "50 \<le> confiabilidade t"
  using assms
  by (auto simp: calcular_tendencia_metrica_def Let_def TendenciaFinanceira_validada_def
        quantize_ge_50 split: if_splits)

lemma quantize_percent:
  assumes "0 \<le> y" and "y \<le> 100"
  shows "0 \<le> quantize y (1/10) \<and> quantize y (1/10) \<le> 100"
proof -
  have "of_int 0 * (1/10) \<le> y" using assms by simp
  then have a: "of_int 0 * (1/10) \<le> quantize y (1/10)" by (rule quantize_ge [rotated]) simp
  have "y \<le> of_int 1000 * (1/10)" using assms by simp
  then have b: "quantize y (1/10) \<le> of_int 1000 * (1/10)" by (rule quantize_le [rotated]) simp
  from a b show ?thesis by simp
qed

lemma Max_float_pos:
  assumes "valores \<noteq> []" and "0 < Max (set valores)"
  shows "0 < Max (set (map float_of valores))"
proof -
  have "Max (set valores) \<in> set valores" using assms(1) by (intro Max_in) simp_all
  then have "float_of (Max (set valores)) \<in> set (map float_of valores)" by simp
  then have "float_of (Max (set valores)) \<le> Max (set (map float_of valores))"
    by (intro Max_ge) simp_all
  moreover have "0 < float_of (Max (set valores))" using assms(2) by (rule float_of_pos)
  ultimately show ?thesis by simp
qed

lemma tendencia_max_positive:
  assumes "pylib_ok L" and "valores \<noteq> []" and "0 < Max (set valores)"
  shows "\<exists>t. calcular_tendencia_metrica L valores nome_metrica = Inr t
           \<and> 50 \<le> confiabilidade t \<and> confiabilidade t \<le> 100"
proof -
  define vf where "vf = map float_of valores"
  define m where "m = Max (set vf)"
  define vol where "vol = (if length vf > 1 then py_stdev L vf else 0)"
  define r where "r = py_str L (fmul (fdiv vol m) 100)"
  define conf where "conf = max 50 (100 - r)"
  define sl where "sl = slope_regressao L vf"
  define di where "di = (if \<bar>sl\<bar> < float_of (1/10) then (ESTAVEL, 20)
             else if sl > 0 then (CRESCIMENTO, min 100 (py_str L \<bar>fmul sl 100\<bar>))
             else (DECLINIO, min 100 (py_str L \<bar>fmul sl 100\<bar>)))"
  have ok1: "0 \<le> py_stdev L xs" for xs using assms(1) by (simp add: pylib_ok_def)
  have ok2: "0 \<le> py_str L v" if "0 \<le> v" for v using assms(1) that by (simp add: pylib_ok_def)
  have m: "0 < m" unfolding m_def vf_def using assms(2,3) by (rule Max_float_pos)
  have ne: "vf \<noteq> []" using assms(2) by (simp add: vf_def)
  have "0 \<le> vol" by (simp add: vol_def ok1)
  then have "0 \<le> vol / m" using m by simp
  then have "0 \<le> fdiv vol m" unfolding fdiv_def by (rule float_of_nonneg)
  then have "0 \<le> fdiv vol m * 100" by simp
  then have "0 \<le> fmul (fdiv vol m) 100" unfolding fmul_def by (rule float_of_nonneg)
  then have "0 \<le> r" unfolding r_def by (rule ok2)
  then have c: "50 \<le> conf \<and> conf \<le> 100" by (simp add: conf_def)
  then have cq: "0 \<le> quantize conf (1/10) \<and> quantize conf (1/10) \<le> 100"
    using quantize_percent [of conf] by simp
  from c have c50: "50 \<le> quantize conf (1/10)" by (simp add: quantize_ge_50)
  have "0 \<le> py_str L \<bar>fmul sl 100\<bar>" by (rule ok2) simp
  then have "0 \<le> snd di \<and> snd di \<le> 100" by (simp add: di_def)
  then have iq: "0 \<le> quantize (snd di) (1/10) \<and> quantize (snd di) (1/10) \<le> 100"
    by (simp add: quantize_percent)
  have "calcular_tendencia_metrica L valores nome_metrica =
          Inr \<lparr>metrica = nome_metrica, direcao = fst di,
               intensidade = quantize (snd di) (1/10),
               periodo_analise = length valores,
               pontos_criticos = map (\<lambda>i. (i + 1, valores ! i))
                             (filter (\<lambda>i. valores ! i < 0) [0..<length valores]),
               confiabilidade = quantize conf (1/10)\<rparr>"
    using ne m iq cq
    unfolding calcular_tendencia_metrica_def Let_def vf_def [symmetric] sl_def [symmetric]
      di_def [symmetric] m_def [symmetric] vol_def [symmetric] r_def [symmetric]
      conf_def [symmetric] TendenciaFinanceira_validada_def
    by simp
  with c50 cq show ?thesis by simp
qed

text \<open>
  Claim C4, as amended. Whenever the trend of a metric is produced, its direction is ESTAVEL
  exactly when the absolute value of the least-squares slope, computed in floating point
  from the values converted to floats, is below the float 0.1, and otherwise CRESCIMENTO or
  DECLINIO by the sign of the slope; its intensity is the constant 20 when the direction is
  ESTAVEL, and otherwise the minimum of 100 and the printed float product of the slope and
  100, in absolute value, quantized to one decimal place. The trend is produced whenever the
  series is not empty and its largest value is positive.
\<close>

theorem tendencia_direcao_intensidade:
  "(calcular_tendencia_metrica L valores nome_metrica = Inr t \<longrightarrow>
      (direcao t = ESTAVEL \<longleftrightarrow>
            \<bar>slope_regressao L (map float_of valores)\<bar> < float_of (1/10))
     \<and> (direcao t = CRESCIMENTO \<longleftrightarrow>
            \<not> \<bar>slope_regressao L (map float_of valores)\<bar> < float_of (1/10)
            \<and> 0 < slope_regressao L (map float_of valores))
     \<and> (direcao t = DECLINIO \<longleftrightarrow>
            \<not> \<bar>slope_regressao L (map float_of valores)\<bar> < float_of (1/10)
            \<and> \<not> 0 < slope_regressao L (map float_of valores))
     \<and> intensidade t =
          (if \<bar>slope_regressao L (map float_of valores)\<bar> < float_of (1/10) then 20
           else quantize (min 100 (py_str L \<bar>fmul (slope_regressao L (map float_of valores))
                                                   100\<bar>)) (1/10)))
   \<and> (pylib_ok L \<and> valores \<noteq> [] \<and> 0 < Max (set valores) \<longrightarrow>
        (\<exists>u. calcular_tendencia_metrica L valores nome_metrica = Inr u))"
proof (intro conjI impI)
  assume "pylib_ok L \<and> valores \<noteq> [] \<and> 0 < Max (set valores)"
  then have "pylib_ok L" and "valores \<noteq> []" and "0 < Max (set valores)" by simp_all
  from tendencia_max_positive [OF this]
  show "\<exists>u. calcular_tendencia_metrica L valores nome_metrica = Inr u" by blast
qed (simp_all only: tendencia_casos)

theorem tendencia_direcao_intensidade_witness:
  "calcular_tendencia_metrica pylib_ref [2, 3, 4] ''Saldo Operacional'' =
     Inr \<lparr>metrica = ''Saldo Operacional'', direcao = CRESCIMENTO, intensidade = 100,
          periodo_analise = 3, pontos_criticos = [], confiabilidade = 75\<rparr>
   \<and> pylib_ok pylib_ref \<and> [2, 3, 4 :: real] \<noteq> [] \<and> 0 < Max (set [2, 3, 4 :: real])
   \<and> \<not> \<bar>slope_regressao pylib_ref (map float_of [2, 3, 4])\<bar> < float_of (1/10)
   \<and> 0 < slope_regressao pylib_ref (map float_of [2, 3, 4])
   \<and> quantize (min 100 (py_str pylib_ref
                  \<bar>fmul (slope_regressao pylib_ref (map float_of [2, 3, 4])) 100\<bar>)) (1/10) = 100"
proof -
  have m: "map float_of [2, 3, 4] = [2, 3, 4]" by simp
  have q: "quantize (min 100 (py_str pylib_ref \<bar>fmul 1 100\<bar>)) (1/10) = 100"
    by (simp add: py_str_ref fmul_def quantize_def)
  have h: "pylib_ok pylib_ref \<and> [2, 3, 4 :: real] \<noteq> [] \<and> 0 < Max (set [2, 3, 4 :: real])"
    by (simp add: pylib_ref_ok)
  from tendencia_direcao_intensidade [of pylib_ref "[2, 3, 4]" "''Saldo Operacional''"
      "\<lparr>metrica = ''Saldo Operacional'', direcao = CRESCIMENTO, intensidade = 100,
          periodo_analise = 3, pontos_criticos = [], confiabilidade = 75\<rparr>"]
    tendencia_234 [of "''Saldo Operacional''"] h
  show ?thesis
    unfolding m slope_234 q by (simp add: float_of_tenth)
qed

text \<open>For the constant series 5, 5 the slope is 0 and the intensity reported is 20, not
  the minimum of 100 and 100 times the absolute slope, which is 0.\<close>

theorem tendencia_intensidade_counterexample:
  "calcular_tendencia_metrica pylib_ref [5, 5] ''Creditos Mensais'' =
     Inr \<lparr>metrica = ''Creditos Mensais'', direcao = ESTAVEL, intensidade = 20,
          periodo_analise = 2, pontos_criticos = [], confiabilidade = 100\<rparr>
   \<and> min 100 (\<bar>slope_regressao pylib_ref (map float_of [5, 5])\<bar> * 100) = 0"
  by (simp add: tendencia_55 slope_55)

text \<open>The credits 100 and 100.1: the float nearest to 100.1 lies below it, the slope
  computed is a float below the float 0.1, about 0.0999999999999943, and the trend is
  ESTAVEL with intensity 20, whatever the library, as long as it sums the two pairs of
  floats of this computation, whose sums are floats, to their sums.\<close>

lemma float_of_100_1: "float_of (1001/10) = 3521955646092083/35184372088832"
  by (simp add: float_of_eqI [of 6] pow2_def round_half_even_def)

lemma slope_100_1001:
  assumes "py_sum L [100, 3521955646092083/35184372088832]
             = 100 + 3521955646092083/35184372088832"
    and "py_sum L [0, 3521955646092083/35184372088832] = 3521955646092083/35184372088832"
  shows "slope_regressao L [100, 3521955646092083/35184372088832]
           = 3518437208883/35184372088832"
proof -
  have e1: "float_of (3521955646092083/35184372088832) = 3521955646092083/35184372088832"
    using float_of_dyadic [of 3521955646092083 "- 45"] by (simp add: pow2_def)
  have e2: "float_of (3521955646092083/17592186044416) = 3521955646092083/17592186044416"
    using float_of_dyadic [of 3521955646092083 "- 44"] by (simp add: pow2_def)
  have e3: "float_of (7040392854975283/35184372088832) = 7040392854975283/35184372088832"
    using float_of_dyadic [of 7040392854975283 "- 45"] by (simp add: pow2_def)
  have e4: "float_of (3518437208883/35184372088832) = 3518437208883/35184372088832"
    using float_of_dyadic [of 3518437208883 "- 45"] by (simp add: pow2_def)
  show ?thesis
    by (simp add: slope_regressao_def Let_def power2_eq_square assms
        fmul_def fsub_def fdiv_def e1 e2 e3 e4)
qed

lemma tendencia_100_1001:
  assumes "py_sum L [100, 3521955646092083/35184372088832]
             = 100 + 3521955646092083/35184372088832"
    and "py_sum L [0, 3521955646092083/35184372088832] = 3521955646092083/35184372088832"
    and "calcular_tendencia_metrica L [100, 1001/10] nome_metrica = Inr t"
  shows "direcao t = ESTAVEL \<and> intensidade t = 20"
proof -
  have m: "map float_of [100, 1001/10] = [100, 3521955646092083/35184372088832]"
    by (simp add: float_of_100_1)
  have "\<bar>slope_regressao L (map float_of [100, 1001/10])\<bar> < float_of (1/10)"
    unfolding m slope_100_1001 [OF assms(1,2)] by (simp add: float_of_tenth)
  with tendencia_casos [OF assms(3)] show ?thesis by simp
qed

lemma tendencia_100_1001_ref:
  "\<exists>t. calcular_tendencia_metrica pylib_ref [100, 1001/10] nome_metrica = Inr t
        \<and> direcao t = ESTAVEL \<and> intensidade t = 20"
proof -
  have e1: "float_of (3521955646092083/35184372088832) = 3521955646092083/35184372088832"
    using float_of_dyadic [of 3521955646092083 "- 45"] by (simp add: pow2_def)
  have e3: "float_of (7040392854975283/35184372088832) = 7040392854975283/35184372088832"
    using float_of_dyadic [of 7040392854975283 "- 45"] by (simp add: pow2_def)
  have s1: "py_sum pylib_ref [100, 3521955646092083/35184372088832]
             = 100 + 3521955646092083/35184372088832"
    by (simp add: py_sum_ref fadd_def e3)
  have s2: "py_sum pylib_ref [0, 3521955646092083/35184372088832]
             = 3521955646092083/35184372088832"
    by (simp add: py_sum_ref fadd_def e1)
  have "[100, 1001/10 :: real] \<noteq> []" and "0 < Max (set [100, 1001/10 :: real])" by simp_all
  from tendencia_max_positive [OF pylib_ref_ok this]
  obtain t where t: "calcular_tendencia_metrica pylib_ref [100, 1001/10] nome_metrica = Inr t"
    by blast
  from tendencia_100_1001 [OF s1 s2 t] t show ?thesis by blast
qed

text \<open>
  Claim C10. Every trend result that is produced has a confidence of at least 50; when the
  largest value of a non-empty series is positive, and the library returns a standard
  deviation that is not negative and prints a float that is not negative as a number that
  is not negative, the trend result is produced and its confidence lies between 50 and 100;
  and for the series -3, -2, -1, whose largest value is negative, the computed confidence
  exceeds 100 and building the trend result fails with a validation error.
\<close>

theorem confiabilidade_bounds:
  "(calcular_tendencia_metrica L valores nome_metrica = Inr t \<longrightarrow> 50 \<le> confiabilidade t)
   \<and> (pylib_ok L \<and> positivos \<noteq> [] \<and> 0 < Max (set positivos) \<longrightarrow>
        (\<exists>u. calcular_tendencia_metrica L positivos nome_metrica = Inr u
              \<and> 50 \<le> confiabilidade u \<and> confiabilidade u \<le> 100))
   \<and> calcular_tendencia_metrica pylib_ref [- 3, - 2, - 1] nome_metrica
        = Inl (ValidationError ''Valores devem estar entre 0 e 100'')
   \<and> Max (set [- 3, - 2, - 1 :: real]) < 0"
  using tendencia_conf_ge_50 [of L valores nome_metrica t]
    tendencia_max_positive [of L positivos nome_metrica] tendencia_neg [of nome_metrica]
  by simp

theorem confiabilidade_bounds_witness:
  "calcular_tendencia_metrica pylib_ref [2, 3, 4] ''Saldo Operacional'' =
     Inr \<lparr>metrica = ''Saldo Operacional'', direcao = CRESCIMENTO, intensidade = 100,
          periodo_analise = 3, pontos_criticos = [], confiabilidade = 75\<rparr>
   \<and> pylib_ok pylib_ref \<and> [2, 3, 4 :: real] \<noteq> [] \<and> 0 < Max (set [2, 3, 4 :: real])
   \<and> (50 :: real) \<le> 75 \<and> (75 :: real) \<le> 100"
  using confiabilidade_bounds [of pylib_ref "[2, 3, 4]" "''Saldo Operacional''"
      "\<lparr>metrica = ''Saldo Operacional'', direcao = CRESCIMENTO, intensidade = 100,
          periodo_analise = 3, pontos_criticos = [], confiabilidade = 75\<rparr>" "[2, 3, 4]"]
  by (simp add: tendencia_234 pylib_ref_ok)

section \<open>Properties of the analyzer boundaries\<close>

text \<open>
  Claim C3. With fewer than 2 monthly records the cash-flow analysis, with fewer than 3
  observations the generic trend analysis, and with an empty ledger the delinquency analysis
  all fail with a CalculationError that wraps the InsufficientDataError holding the required
  and actual counts: the error is raised inside the \<open>try\<close> block whose \<open>except\<close> clause
  wraps every exception, so no analysis ever fails with an InsufficientDataError itself.
\<close>

theorem insufficient_data_is_wrapped:
  "(length movimentacoes < 2 \<longrightarrow>
      CashFlowAnalyzer_analisar L movimentacoes =
        Inl (CalculationError ''analise_cashflow''
              (InsufficientDataError ''analise_cashflow'' 2 (length movimentacoes))))
   \<and> (length dados_temporais < 3 \<longrightarrow>
      TrendAnalyzer_analisar corpo dados_temporais =
        Inl (CalculationError ''analise_tendencias''
              (InsufficientDataError ''analise_tendencias'' 3 (length dados_temporais))))
   \<and> DelinquencyAnalyzer_analisar L [] =
        Inl (CalculationError ''analise_inadimplencia''
              (InsufficientDataError ''analise_inadimplencia'' 1 0))
   \<and> CashFlowAnalyzer_analisar L ms \<noteq> Inl (InsufficientDataError tag a b)
   \<and> TrendAnalyzer_analisar corpo ds \<noteq> Inl (InsufficientDataError tag a b)
   \<and> DelinquencyAnalyzer_analisar L ls \<noteq> Inl (InsufficientDataError tag a b)"
proof -
  have c: "length movimentacoes < 2 \<longrightarrow>
      CashFlowAnalyzer_analisar L movimentacoes =
        Inl (CalculationError ''analise_cashflow''
              (InsufficientDataError ''analise_cashflow'' 2 (length movimentacoes)))"
    by (simp add: CashFlowAnalyzer_analisar_def)
  have t: "length dados_temporais < 3 \<longrightarrow>
      TrendAnalyzer_analisar corpo dados_temporais =
        Inl (CalculationError ''analise_tendencias''
              (InsufficientDataError ''analise_tendencias'' 3 (length dados_temporais)))"
    by (simp add: TrendAnalyzer_analisar_def min_periodos_tendencia_def)
  have d: "DelinquencyAnalyzer_analisar L [] =
        Inl (CalculationError ''analise_inadimplencia''
              (InsufficientDataError ''analise_inadimplencia'' 1 0))"
    by (simp add: DelinquencyAnalyzer_analisar_def)
  have c': "CashFlowAnalyzer_analisar L ms \<noteq> Inl (InsufficientDataError tag a b)"
    unfolding CashFlowAnalyzer_analisar_def by (simp split: sum.splits)
  have t': "TrendAnalyzer_analisar corpo ds \<noteq> Inl (InsufficientDataError tag a b)"
    unfolding TrendAnalyzer_analisar_def by (simp split: sum.splits)
  have d': "DelinquencyAnalyzer_analisar L ls \<noteq> Inl (InsufficientDataError tag a b)"
    unfolding DelinquencyAnalyzer_analisar_def by (simp split: sum.splits)
  from c t d c' t' d' show ?thesis by blast
qed

theorem insufficient_data_is_wrapped_witness:
  "length [mov_unico] < 2
   \<and> CashFlowAnalyzer_analisar pylib_ref [mov_unico] =
        Inl (CalculationError ''analise_cashflow''
              (InsufficientDataError ''analise_cashflow'' 2 1))
   \<and> length [(), ()] < 3
   \<and> TrendAnalyzer_analisar (\<lambda>ds. Inr (length ds)) [(), ()] =
        Inl (CalculationError ''analise_tendencias''
              (InsufficientDataError ''analise_tendencias'' 3 2))"
  using insufficient_data_is_wrapped [where L = pylib_ref and movimentacoes = "[mov_unico]"
      and dados_temporais = "[(), ()]" and corpo = "\<lambda>ds. Inr (length ds)"]
  by simp

section \<open>Properties of the cash-flow alerts\<close>

lemma ex_adjacent_Cons:
  "(\<exists>i. Suc i < length (x # xs) \<and> P ((x # xs) ! i) \<and> P ((x # xs) ! Suc i))
     \<longleftrightarrow> (xs \<noteq> [] \<and> P x \<and> P (hd xs))
          \<or> (\<exists>i. Suc i < length xs \<and> P (xs ! i) \<and> P (xs ! Suc i))"
proof
  assume "\<exists>i. Suc i < length (x # xs) \<and> P ((x # xs) ! i) \<and> P ((x # xs) ! Suc i)"
  then obtain i where i: "Suc i < length (x # xs)" "P ((x # xs) ! i)" "P ((x # xs) ! Suc i)"
    by blast
  show "(xs \<noteq> [] \<and> P x \<and> P (hd xs))
          \<or> (\<exists>i. Suc i < length xs \<and> P (xs ! i) \<and> P (xs ! Suc i))"
  proof (cases i)
    case 0
    with i have "xs \<noteq> [] \<and> P x \<and> P (xs ! 0)" by auto
    then show ?thesis by (cases xs) simp_all
  next
    case (Suc j)
    with i have "Suc j < length xs \<and> P (xs ! j) \<and> P (xs ! Suc j)" by simp
    then show ?thesis by blast
  qed
next
  assume "(xs \<noteq> [] \<and> P x \<and> P (hd xs))
          \<or> (\<exists>i. Suc i < length xs \<and> P (xs ! i) \<and> P (xs ! Suc i))"
  then show "\<exists>i. Suc i < length (x # xs) \<and> P ((x # xs) ! i) \<and> P ((x # xs) ! Suc i)"
  proof
    assume a: "xs \<noteq> [] \<and> P x \<and> P (hd xs)"
    then have "Suc 0 < length (x # xs) \<and> P ((x # xs) ! 0) \<and> P ((x # xs) ! Suc 0)"
      by (cases xs) simp_all
    then show ?thesis by blast
  next
    assume "\<exists>i. Suc i < length xs \<and> P (xs ! i) \<and> P (xs ! Suc i)"
    then obtain j where "Suc j < length xs \<and> P (xs ! j) \<and> P (xs ! Suc j)" by blast
    then have "Suc (Suc j) < length (x # xs) \<and> P ((x # xs) ! Suc j) \<and> P ((x # xs) ! Suc (Suc j))"
      by simp
    then show ?thesis by blast
  qed
qed

lemma alertas_meses_negativos_iff:
  "c \<le> 1 \<Longrightarrow>
   alertas_meses_negativos c movs = [MesesConsecutivosNegativos 2]
     \<and> ((c = 1 \<and> movs \<noteq> [] \<and> saldo_operacional (hd movs) < 0)
          \<or> (\<exists>i. Suc i < length movs \<and> saldo_operacional (movs ! i) < 0
                   \<and> saldo_operacional (movs ! Suc i) < 0))
   \<or> alertas_meses_negativos c movs = []
     \<and> \<not> ((c = 1 \<and> movs \<noteq> [] \<and> saldo_operacional (hd movs) < 0)
          \<or> (\<exists>i. Suc i < length movs \<and> saldo_operacional (movs ! i) < 0
                   \<and> saldo_operacional (movs ! Suc i) < 0))"
proof (induction movs arbitrary: c)
  case Nil
  then show ?case by simp
next
  case (Cons mov rest)
  note adj = ex_adjacent_Cons [of mov rest "\<lambda>m. saldo_operacional m < 0"]
  show ?case
  proof (cases "saldo_operacional mov < 0")
    case neg: True
    show ?thesis
    proof (cases "c = 1")
      case True
      with neg show ?thesis by simp
    next
      case False
      with Cons.prems have c0: "c = 0" by simp
      from Cons.IH [of 1] c0 neg show ?thesis
        unfolding adj by (auto simp: Let_def)
    qed
  next
    case False
    from Cons.IH [of 0] False show ?thesis
      unfolding adj by (auto simp: Let_def)
  qed
qed

lemma gerar_alertas_consecutivos:
  assumes "movimentacoes \<noteq> []"
  shows "\<exists>alertas. gerar_alertas_cashflow L movimentacoes = Inr alertas
           \<and> ((\<exists>k. MesesConsecutivosNegativos k \<in> set alertas)
                \<longleftrightarrow> (\<exists>i. Suc i < length movimentacoes
                         \<and> saldo_operacional (movimentacoes ! i) < 0
                         \<and> saldo_operacional (movimentacoes ! Suc i) < 0))"
proof -
  from alertas_meses_negativos_iff [of 0 movimentacoes]
  have "(\<exists>k. MesesConsecutivosNegativos k \<in> set (alertas_meses_negativos 0 movimentacoes))
          \<longleftrightarrow> (\<exists>i. Suc i < length movimentacoes
                         \<and> saldo_operacional (movimentacoes ! i) < 0
                         \<and> saldo_operacional (movimentacoes ! Suc i) < 0)"
    by auto
  with assms show ?thesis
    by (auto simp: gerar_alertas_cashflow_def Let_def)
qed

text \<open>Whenever the analysis returns a result, the movements it analysed are the converted
  input sorted by month, and its alerts hold the critical alert if and only if two adjacent
  ones of those movements have negative balances.\<close>

lemma analisar_alerta_consecutivos:
  assumes "CashFlowAnalyzer_analisar L movimentacoes = Inr r"
  shows "converter_movimentacoes movimentacoes = Inr (movimentacoes_analisadas r)
     \<and> sorted (map (\<lambda>x. obter_indice_mes (mes x)) (movimentacoes_analisadas r))
     \<and> ((\<exists>k. MesesConsecutivosNegativos k \<in> set (alertas_cashflow r))
           \<longleftrightarrow> (\<exists>i. Suc i < length (movimentacoes_analisadas r)
                    \<and> saldo_operacional (movimentacoes_analisadas r ! i) < 0
                    \<and> saldo_operacional (movimentacoes_analisadas r ! Suc i) < 0))"
proof -
  from assms obtain objs tends alertas where
    c: "converter_movimentacoes movimentacoes = Inr objs" and
    g: "gerar_alertas_cashflow L objs = Inr alertas" and
    r: "r = \<lparr>movimentacoes_analisadas = objs,
              volatilidade_resumo = calcular_volatilidade_saldos L objs,
              tendencias = tends, alertas_cashflow = alertas\<rparr>"
    by (auto simp: CashFlowAnalyzer_analisar_def split: if_splits sum.splits)
  from c obtain lista where "objs = sort_key (\<lambda>x. obter_indice_mes (mes x)) lista"
    by (auto simp: converter_movimentacoes_def split: sum.splits)
  then have s: "sorted (map (\<lambda>x. obter_indice_mes (mes x)) objs)" by simp
  from g have "(\<exists>k. MesesConsecutivosNegativos k \<in> set alertas)
                 \<longleftrightarrow> (\<exists>k. MesesConsecutivosNegativos k \<in> set (alertas_meses_negativos 0 objs))"
    by (auto simp: gerar_alertas_cashflow_def Let_def split: if_splits)
  also from alertas_meses_negativos_iff [of 0 objs]
  have "\<dots> \<longleftrightarrow> (\<exists>i. Suc i < length objs \<and> saldo_operacional (objs ! i) < 0
                    \<and> saldo_operacional (objs ! Suc i) < 0)"
    by auto
  finally show ?thesis using c s by (simp add: r)
qed

lemma indice_maio: "obter_indice_mes ''Maio'' = 4" by code_simp
lemma indice_junho: "obter_indice_mes ''Junho'' = 5" by code_simp
lemma indice_julho: "obter_indice_mes ''Julho'' = 6" by code_simp

lemma tendencia_111:
  "calcular_tendencia_metrica pylib_ref [1, 1, 1] nome_metrica =
     Inr \<lparr>metrica = nome_metrica, direcao = ESTAVEL, intensidade = 20,
          periodo_analise = 3, pontos_criticos = [], confiabilidade = 100\<rparr>"
  by (simp add: calcular_tendencia_metrica_def slope_regressao_def stdev_def mean_def Let_def
      power2_eq_square py_sum_ref py_stdev_ref py_str_ref fadd_def fmul_def fsub_def fdiv_def
      float_of_tenth TendenciaFinanceira_validada_def quantize_def)

lemma tendencia_432:
  "calcular_tendencia_metrica pylib_ref [4, 3, 2] nome_metrica =
     Inr \<lparr>metrica = nome_metrica, direcao = DECLINIO, intensidade = 100,
          periodo_analise = 3, pontos_criticos = [], confiabilidade = 75\<rparr>"
  by (simp add: calcular_tendencia_metrica_def slope_regressao_def stdev_def mean_def Let_def
      power2_eq_square py_sum_ref py_stdev_ref py_str_ref fadd_def fmul_def fsub_def fdiv_def
      float_of_tenth TendenciaFinanceira_validada_def quantize_def)

lemma converter_deficit:
  "converter_movimentacoes movs_deficit = Inr
     [\<lparr>mes = ''Maio'', ano = 2025, credito = 1, debito = 4, saldo_operacional = - 3\<rparr>,
      \<lparr>mes = ''Junho'', ano = 2025, credito = 1, debito = 3, saldo_operacional = - 2\<rparr>,
      \<lparr>mes = ''Julho'', ano = 2025, credito = 1, debito = 2, saldo_operacional = - 1\<rparr>]"
  by (simp add: movs_deficit_def converter_movimentacoes_def
      converter_movimentacao_def MovimentacaoFinanceira_validada_def
      indice_maio indice_junho indice_julho)

lemma alertas_deficit:
  "gerar_alertas_cashflow pylib_ref
     [\<lparr>mes = ''Maio'', ano = 2025, credito = 1, debito = 4, saldo_operacional = - 3\<rparr>,
      \<lparr>mes = ''Junho'', ano = 2025, credito = 1, debito = 3, saldo_operacional = - 2\<rparr>,
      \<lparr>mes = ''Julho'', ano = 2025, credito = 1, debito = 2, saldo_operacional = - 1\<rparr>]
   = Inr [MesesConsecutivosNegativos 2]"
  by (simp add: gerar_alertas_cashflow_def calcular_volatilidade_saldos_def Let_def
      py_stdev_ref py_str_ref stdev_neg quantize_def fmul_def)

lemma tendencia_saldo_rec:
  "calcular_tendencia_metrica pylib_ref [- 3, - 1, 1] nome_metrica =
     Inr \<lparr>metrica = nome_metrica, direcao = CRESCIMENTO, intensidade = 100,
          periodo_analise = 3, pontos_criticos = [(1, - 3), (2, - 1)], confiabilidade = 50\<rparr>"
  by (simp add: calcular_tendencia_metrica_def slope_regressao_def stdev_def mean_def Let_def
      power2_eq_square py_sum_ref py_stdev_ref py_str_ref fadd_def fmul_def fsub_def fdiv_def
      float_of_tenth TendenciaFinanceira_validada_def quantize_def)

text \<open>An analysis that succeeds: deficits in May and June, a surplus in July.\<close>

lemma analisar_recuperacao:
  "CashFlowAnalyzer_analisar pylib_ref movs_recuperacao =
     Inr \<lparr>movimentacoes_analisadas =
            [\<lparr>mes = ''Maio'', ano = 2025, credito = 1, debito = 4, saldo_operacional = - 3\<rparr>,
             \<lparr>mes = ''Junho'', ano = 2025, credito = 1, debito = 3, saldo_operacional = - 1\<rparr>,
             \<lparr>mes = ''Julho'', ano = 2025, credito = 1, debito = 2, saldo_operacional = 1\<rparr>],
          volatilidade_resumo = 2,
          tendencias =
            [\<lparr>metrica = ''Creditos Mensais'', direcao = ESTAVEL, intensidade = 20,
              periodo_analise = 3, pontos_criticos = [], confiabilidade = 100\<rparr>,
             \<lparr>metrica = ''Debitos Mensais'', direcao = DECLINIO, intensidade = 100,
              periodo_analise = 3, pontos_criticos = [], confiabilidade = 75\<rparr>,
             \<lparr>metrica = ''Saldo Operacional'', direcao = CRESCIMENTO, intensidade = 100,
              periodo_analise = 3, pontos_criticos = [(1, - 3), (2, - 1)], confiabilidade = 50\<rparr>],
          alertas_cashflow = [MesesConsecutivosNegativos 2, AltaVolatilidade 2]\<rparr>"
  by (simp add: CashFlowAnalyzer_analisar_def movs_recuperacao_def converter_movimentacoes_def
      converter_movimentacao_def MovimentacaoFinanceira_validada_def
      indice_maio indice_junho indice_julho analisar_tendencias_def
      tendencia_111 tendencia_432 tendencia_saldo_rec
      gerar_alertas_cashflow_def calcular_volatilidade_saldos_def stdev_def mean_def
      py_stdev_ref py_str_ref fmul_def quantize_def Let_def)

text \<open>
  Claim C7. The alert generation, given the month-sorted movements, returns the critical
  alert on consecutive negative months exactly when two adjacent movements have negative
  balances (lemma \<open>gerar_alertas_consecutivos\<close>), and so does every analysis that returns a
  result (lemma \<open>analisar_alerta_consecutivos\<close>). But the analysis of three months whose
  balances, -3, -2 and -1 in month order, are all negative returns no alert: the movements
  are converted and sorted, the alert generation on them would return the critical alert,
  and the analysis fails before it reaches that step, with a CalculationError that wraps
  the validation error of the trend of the balances.
\<close>

theorem alerta_consecutivos_deficit:
  "CashFlowAnalyzer_analisar pylib_ref movs_deficit
     = Inl (CalculationError ''analise_cashflow''
              (ValidationError ''Valores devem estar entre 0 e 100''))
   \<and> (\<exists>objs. converter_movimentacoes movs_deficit = Inr objs
         \<and> map saldo_operacional objs = [- 3, - 2, - 1]
         \<and> Suc 0 < length objs
         \<and> saldo_operacional (objs ! 0) < 0 \<and> saldo_operacional (objs ! Suc 0) < 0
         \<and> gerar_alertas_cashflow pylib_ref objs = Inr [MesesConsecutivosNegativos 2])"
proof -
  have "length movs_deficit = 3" by (simp add: movs_deficit_def)
  then have "CashFlowAnalyzer_analisar pylib_ref movs_deficit
     = Inl (CalculationError ''analise_cashflow''
              (ValidationError ''Valores devem estar entre 0 e 100''))"
    by (simp add: CashFlowAnalyzer_analisar_def converter_deficit analisar_tendencias_def
        tendencia_111 tendencia_432 tendencia_neg)
  then show ?thesis by (simp add: converter_deficit alertas_deficit)
qed

end
